theory Spec2Isabelle
  imports Main
begin

section \<open>Errors (pkg/errors/types.go)\<close>

text \<open>
  An \<open>AppError\<close> carries a numeric code, a category, a message and an optional context.
  The \<open>Cause\<close> field is set by none of the constructors used by the YAML package and is
  left out.
\<close>

record AppError =
  Code :: nat
  Category :: string
  Message :: string
  Context :: string

definition ErrCodeFileNotFound :: nat where "ErrCodeFileNotFound = 1002"
definition ErrCodeInvalidYAML :: nat where "ErrCodeInvalidYAML = 1003"
definition ErrCodeValidation :: nat where "ErrCodeValidation = 1007"

definition MaxErrorMessageLength :: nat where "MaxErrorMessageLength = 500"
definition MaxErrorContextLength :: nat where "MaxErrorContextLength = 200"

definition CategoryFile :: string where "CategoryFile = ''file''"
definition CategoryFileSystem :: string where "CategoryFileSystem = ''filesystem''"
definition CategoryValidation :: string where "CategoryValidation = ''validation''"

definition truncateString :: "string \<Rightarrow> nat \<Rightarrow> string" where
  "truncateString s maxLen =
     (if length s \<le> maxLen then s
      else if maxLen \<le> length ''...'' then take maxLen s
      else take (maxLen - length ''...'') s @ ''...'')"

definition NewAppError :: "nat \<Rightarrow> string \<Rightarrow> string \<Rightarrow> AppError" where
  "NewAppError code category message =
     \<lparr>Code = code, Category = category,
      Message = truncateString message MaxErrorMessageLength, Context = ''''\<rparr>"

definition NewAppErrorWithContext :: "nat \<Rightarrow> string \<Rightarrow> string \<Rightarrow> string \<Rightarrow> AppError" where
  "NewAppErrorWithContext code category message ctx =
     \<lparr>Code = code, Category = category,
      Message = truncateString message MaxErrorMessageLength,
      Context = truncateString ctx MaxErrorContextLength\<rparr>"

definition NewFileNotFoundError :: "string \<Rightarrow> AppError" where
  "NewFileNotFoundError filePath =
     NewAppErrorWithContext ErrCodeFileNotFound CategoryFile ''file not found'' filePath"

definition NewInvalidYAMLError :: "string \<Rightarrow> AppError" where
  "NewInvalidYAMLError message = NewAppError ErrCodeInvalidYAML CategoryFile message"

definition NewFileSystemError :: "string \<Rightarrow> AppError" where
  "NewFileSystemError message = NewAppError ErrCodeFileNotFound CategoryFileSystem message"

definition NewValidationError :: "string \<Rightarrow> AppError" where
  "NewValidationError message = NewAppError ErrCodeValidation CategoryValidation message"

text \<open>
  A Go \<open>error\<close> value as the YAML package produces it: an \<open>AppError\<close>, an error wrapped
  by \<open>fmt.Errorf("<prefix>: %w", err)\<close>, an error of the operating system passed on as it
  is, or a run-time panic.
\<close>

datatype error = AppErr AppError | Wrapped string error | OSError string | Panic string

text \<open>The \<open>AppError\<close> at the end of the \<open>Unwrap\<close> chain, as \<open>errors.As\<close> finds it.\<close>

fun appErrorOf :: "error \<Rightarrow> AppError option" where
  "appErrorOf (AppErr e) = Some e"
| "appErrorOf (Wrapped _ e) = appErrorOf e"
| "appErrorOf (OSError _) = None"
| "appErrorOf (Panic _) = None"

definition isValidationError :: "error \<Rightarrow> bool" where
  "isValidationError e =
     (case appErrorOf e of None \<Rightarrow> False
      | Some a \<Rightarrow> Code a = ErrCodeValidation \<and> Category a = CategoryValidation)"

definition isFileNotFoundError :: "error \<Rightarrow> bool" where
  "isFileNotFoundError e =
     (case appErrorOf e of None \<Rightarrow> False
      | Some a \<Rightarrow> Code a = ErrCodeFileNotFound \<and> Category a = CategoryFile)"

text \<open>An error with the code \<open>ErrCodeFileNotFound\<close>, whatever its category.\<close>

definition hasNotFoundCode :: "error \<Rightarrow> bool" where
  "hasNotFoundCode e =
     (case appErrorOf e of None \<Rightarrow> False | Some a \<Rightarrow> Code a = ErrCodeFileNotFound)"

definition isFileSystemError :: "error \<Rightarrow> bool" where
  "isFileSystemError e =
     (case appErrorOf e of None \<Rightarrow> False
      | Some a \<Rightarrow> Code a = ErrCodeFileNotFound \<and> Category a = CategoryFileSystem)"

section \<open>The YAML document tree (gopkg.in/yaml.v3)\<close>

text \<open>
  \<open>yaml.Node\<close>: \<open>Kind\<close> is an unsigned integer with the five kinds as constants; a node
  that the decoder left untouched has kind 0. The fields that the package under
  verification never reads or writes (style, tag, anchor and the three comments) are
  kept together in \<open>Attrs\<close>, because the encoder reads them. An alias node names its
  anchor in \<open>Value\<close>; its pointer to the anchored node is not represented.
\<close>

record node_attrs =
  Style :: nat
  Tag :: string
  Anchor :: string
  HeadComment :: string
  LineComment :: string
  FootComment :: string

datatype yaml_node =
  YamlNode (Kind: nat) (Value: string) (Line: int) (Column: int) (Attrs: node_attrs)
    (Content: "yaml_node list")

definition DocumentNode :: nat where "DocumentNode = 1"
definition SequenceNode :: nat where "SequenceNode = 2"
definition MappingNode :: nat where "MappingNode = 4"
definition ScalarNode :: nat where "ScalarNode = 8"
definition AliasNode :: nat where "AliasNode = 16"

text \<open>
  A \<open>*yaml.Node\<close> that points into the tree of a parse result is the position of the
  node: the child indices on the way down from the root. Reading and writing through
  the pointer are \<open>nodeAt\<close> and \<open>setValueAt\<close>. A position that names no node of the tree
  stands for a node outside it: a write there leaves the tree as it is.
\<close>

type_synonym node_ref = "nat list"


fun setValueAt :: "node_ref \<Rightarrow> string \<Rightarrow> yaml_node \<Rightarrow> yaml_node"
  and setValueAtList :: "nat \<Rightarrow> node_ref \<Rightarrow> string \<Rightarrow> yaml_node list \<Rightarrow> yaml_node list" where
  "setValueAt [] v (YamlNode k old l c a kids) = YamlNode k v l c a kids"
| "setValueAt (i # is) v (YamlNode k old l c a kids) =
     YamlNode k old l c a (setValueAtList i is v kids)"
| "setValueAtList i is v [] = []"
| "setValueAtList 0 is v (c # cs) = setValueAt is v c # cs"
| "setValueAtList (Suc i) is v (c # cs) = c # setValueAtList i is v cs"

section \<open>The libraries outside the repository\<close>

text \<open>
  What the code calls and the repository does not hold is a parameter of the model.
  Of yaml.v3: \<open>Unmarshal\<close> decodes a text into a \<open>yaml.Node\<close>, \<open>UnmarshalValue\<close> decodes it
  into an \<open>interface{}\<close> (only its error matters here), and \<open>Encode\<close> is \<open>Encoder.Encode\<close>
  followed by \<open>Encoder.Close\<close> at a given indentation; library errors are their
  messages. Of the standard library: \<open>MapToLower\<close> is \<open>strings.Map(unicode.ToLower, s)\<close>,
  which decodes the string as UTF-8 and reads the Unicode case tables.
\<close>

datatype enc_result = EncodeFailed string | CloseFailed string | Encoded string

record libraries =
  Unmarshal :: "string \<Rightarrow> string + yaml_node"
  UnmarshalValue :: "string \<Rightarrow> string option"
  Encode :: "int \<Rightarrow> yaml_node option \<Rightarrow> enc_result"
  MapToLower :: "string \<Rightarrow> string"

section \<open>Strings and paths (Go standard library, Unix)\<close>

text \<open>
  Go strings are byte sequences and \<open>len\<close> counts bytes; so do \<open>string\<close> and \<open>length\<close>
  here. The functions below follow the documented behaviour of the packages \<open>strings\<close>
  and \<open>path/filepath\<close> on a Unix system, where the separator is \<open>/\<close> and a volume name is
  always empty.
\<close>

fun HasPrefix :: "string \<Rightarrow> string \<Rightarrow> bool" where
  "HasPrefix s [] = True"
| "HasPrefix [] (p # ps) = False"
| "HasPrefix (c # cs) (p # ps) = (c = p \<and> HasPrefix cs ps)"

fun Contains :: "string \<Rightarrow> string \<Rightarrow> bool" where
  "Contains [] sub = (sub = [])"
| "Contains (c # cs) sub = (HasPrefix (c # cs) sub \<or> Contains cs sub)"

definition toLowerChar :: "char \<Rightarrow> char" where
  "toLowerChar c =
     (case map_of (zip ''ABCDEFGHIJKLMNOPQRSTUVWXYZ'' ''abcdefghijklmnopqrstuvwxyz'') c of
        None \<Rightarrow> c
      | Some l \<Rightarrow> l)"

text \<open>
  \<open>strings.ToLower\<close> looks for a byte of 128 or more, one whose highest bit \<open>digit7\<close> is
  set. A string without one is lower-cased byte by byte, the 26 capital letters
  becoming small ones; any other string is handed to \<open>strings.Map(unicode.ToLower, s)\<close>.
\<close>

definition isASCII :: "string \<Rightarrow> bool" where
  "isASCII s = list_all (\<lambda>c. \<not> digit7 c) s"

definition ToLower :: "libraries \<Rightarrow> string \<Rightarrow> string" where
  "ToLower lib s = (if isASCII s then map toLowerChar s else MapToLower lib s)"

definition ReplaceAllChar :: "string \<Rightarrow> char \<Rightarrow> char \<Rightarrow> string" where
  "ReplaceAllChar s old new = map (\<lambda>c. if c = old then new else c) s"

fun splitSep :: "string \<Rightarrow> string list" where
  "splitSep [] = [[]]"
| "splitSep (c # cs) =
     (if c = CHR ''/'' then [] # splitSep cs
      else (case splitSep cs of [] \<Rightarrow> [[c]] | seg # rest \<Rightarrow> (c # seg) # rest))"

fun joinSep :: "string list \<Rightarrow> string" where
  "joinSep [] = []"
| "joinSep [e] = e"
| "joinSep (e # es) = e @ ''/'' @ joinSep es"

text \<open>
  \<open>filepath.Clean\<close>: the path is read element by element. An empty element and \<open>.\<close> are
  dropped; \<open>..\<close> removes the last element written unless only the root or a run of
  leading \<open>..\<close> elements has been written (\<open>dotdot\<close> counts them), in which case it is
  dropped for a rooted path and written for a relative one.
\<close>

fun cleanElems :: "bool \<Rightarrow> string list \<Rightarrow> string list \<Rightarrow> nat \<Rightarrow> string list" where
  "cleanElems rooted [] out dotdot = out"
| "cleanElems rooted (e # es) out dotdot =
     (if e = [] then cleanElems rooted es out dotdot
      else if e = ''.'' then cleanElems rooted es out dotdot
      else if e = ''..'' then
        (if length out > dotdot then cleanElems rooted es (butlast out) dotdot
         else if \<not> rooted then cleanElems rooted es (out @ [''..'']) (length out + 1)
         else cleanElems rooted es out dotdot)
      else cleanElems rooted es (out @ [e]) dotdot)"

definition Clean :: "string \<Rightarrow> string" where
  "Clean path =
     (if path = [] then ''.''
      else
        let rooted = (hd path = CHR ''/'');
            out = cleanElems rooted (splitSep path) [] 0
        in if rooted then CHR ''/'' # joinSep out
           else if out = [] then ''.'' else joinSep out)"

definition IsAbs :: "string \<Rightarrow> bool" where
  "IsAbs path = HasPrefix path ''/''"

definition Dir :: "string \<Rightarrow> string" where
  "Dir path = Clean (rev (dropWhile (\<lambda>c. c \<noteq> CHR ''/'') (rev path)))"

definition Base :: "string \<Rightarrow> string" where
  "Base path =
     (if path = [] then ''.''
      else
        let stripped = rev (dropWhile (\<lambda>c. c = CHR ''/'') (rev path));
            elem = rev (takeWhile (\<lambda>c. c \<noteq> CHR ''/'') (rev stripped))
        in if elem = [] then ''/'' else elem)"

definition Join :: "string list \<Rightarrow> string" where
  "Join elem =
     (case dropWhile (\<lambda>e. e = []) elem of
        [] \<Rightarrow> []
      | es \<Rightarrow> Clean (joinSep es))"

section \<open>Path validation (internal/yaml/updater.go)\<close>

definition PathTraversalPattern :: string where "PathTraversalPattern = ''..''"
definition WindowsDriveLetterSeparator :: string where "WindowsDriveLetterSeparator = '':''"
definition UnixTempDir :: string where "UnixTempDir = ''/tmp/''"
definition UnixVarTempDir :: string where "UnixVarTempDir = ''/var/tmp/''"
definition WindowsCTempDir :: string where "WindowsCTempDir = ''C:/temp/''"
definition WindowsCTmpDir :: string where "WindowsCTmpDir = ''C:/tmp/''"
definition WindowsDTempDir :: string where "WindowsDTempDir = ''D:/temp/''"
definition WindowsDTmpDir :: string where "WindowsDTmpDir = ''D:/tmp/''"

definition validateAndCleanFilePath :: "libraries \<Rightarrow> string \<Rightarrow> error + string" where
  "validateAndCleanFilePath lib filePath =
     (if filePath = [] then Inl (AppErr (NewValidationError ''file path cannot be empty''))
      else
        let cleanPath = Clean filePath in
        if Contains cleanPath PathTraversalPattern then
          Inl (AppErr (NewValidationError ''file path contains invalid traversal patterns''))
        else if IsAbs cleanPath then
          (let windows = Contains cleanPath WindowsDriveLetterSeparator;
               allowedPrefixes =
                 [UnixTempDir, UnixVarTempDir] @
                 (if windows
                  then [WindowsCTempDir, WindowsCTmpDir, WindowsDTempDir, WindowsDTmpDir]
                  else []);
               cleanPath' =
                 (if windows then ReplaceAllChar cleanPath (CHR 0x5C) (CHR ''/'')
                  else cleanPath);
               allowed =
                 list_ex (\<lambda>prefix. HasPrefix (ToLower lib cleanPath') (ToLower lib prefix))
                   allowedPrefixes
           in if \<not> allowed then
                Inl (AppErr (NewValidationError
                  ''absolute file paths outside safe directories are not allowed''))
              else Inr cleanPath')
        else Inr cleanPath)"

section \<open>Formatting (package fmt)\<close>

text \<open>\<open>%d\<close> of a non-negative integer, and \<open>%v\<close> of a slice of strings.\<close>

fun showNat :: "nat \<Rightarrow> string" where
  "showNat n =
     (if n < 10 then [''0123456789'' ! n]
      else showNat (n div 10) @ [''0123456789'' ! (n mod 10)])"

declare showNat.simps [simp del]

fun joinSpace :: "string list \<Rightarrow> string" where
  "joinSpace [] = []"
| "joinSpace [e] = e"
| "joinSpace (e # es) = e @ '' '' @ joinSpace es"

definition showStrings :: "string list \<Rightarrow> string" where
  "showStrings xs = ''['' @ joinSpace xs @ '']''"

section \<open>The parser (internal/yaml/parser.go)\<close>

definition DefaultIndentation :: int where "DefaultIndentation = 2"
definition MaxFileSize :: nat where "MaxFileSize = 10 * 1024 * 1024"
definition MaxTagValueLength :: nat where "MaxTagValueLength = 256"

record Parser =
  preserveComments :: bool
  preserveOrder :: bool
  indentation :: int

text \<open>
  \<open>TagLocation\<close>: the fields \<open>Line\<close>, \<open>Column\<close> and \<open>Value\<close> are named \<open>LocLine\<close>,
  \<open>LocColumn\<close> and \<open>LocValue\<close> here, apart from those of the node. \<open>Node\<close> is \<open>None\<close>
  for a nil pointer.
\<close>

record TagLocation =
  Path :: "string list"
  LocLine :: int
  LocColumn :: int
  LocValue :: string
  Node :: "node_ref option"

text \<open>\<open>ParseResult\<close>: the field \<open>Content\<close> is named \<open>DocContent\<close> here.\<close>

record ParseResult =
  DocContent :: "yaml_node option"
  TagLocations :: "TagLocation list"
  OriginalContent :: string
  IsValid :: bool
  Errors :: "string list"

record UpdateOptions =
  TagPath :: "string list"
  NewValue :: string
  CreateIfMissing :: bool
  BackupContent :: bool

definition NewParser :: Parser where
  "NewParser = \<lparr>preserveComments = True, preserveOrder = True, indentation = DefaultIndentation\<rparr>"

definition NewParserWithOptions :: "bool \<Rightarrow> bool \<Rightarrow> int \<Rightarrow> Parser" where
  "NewParserWithOptions pc po ind =
     \<lparr>preserveComments = pc, preserveOrder = po,
      indentation = (if ind \<le> 0 then DefaultIndentation else ind)\<rparr>"

definition tagPatterns :: "string list" where
  "tagPatterns = [''tag'', ''version'', ''image'', ''release'']"

definition isTagField :: "libraries \<Rightarrow> string \<Rightarrow> yaml_node \<Rightarrow> bool" where
  "isTagField lib key valueNode =
     (if Kind valueNode \<noteq> ScalarNode then False
      else
        let keyLower = ToLower lib key in
        if list_ex (\<lambda>pattern. Contains keyLower pattern) tagPatterns then True
        else
          let v = ToLower lib (Value valueNode) in
          if Contains v ''v'' \<or> Contains v ''.v'' \<or> Contains v ''-'' then
            Contains v ''tag'' \<or> Contains v ''version'' \<or> Contains key ''image''
          else False)"

text \<open>
  \<open>findTagLocations\<close> walks the tree and appends to the locations of the result, which
  is threaded through the calls as \<open>acc\<close>. \<open>ref\<close> is the position of \<open>node\<close>, so that a
  location can point at its value node. The three loops over \<open>node.Content\<close> are
  \<open>documentLoop\<close>, \<open>mappingLoop\<close> and \<open>sequenceLoop\<close>, with \<open>i\<close> the index of the head
  of the remaining children. In a mapping, \<open>node.Content[i+1]\<close> on a key without a value
  is an index out of range, a panic.
\<close>

function (sequential) findTagLocations ::
    "libraries \<Rightarrow> yaml_node \<Rightarrow> node_ref \<Rightarrow> string list \<Rightarrow> TagLocation list \<Rightarrow> error + TagLocation list"
  and documentLoop ::
    "libraries \<Rightarrow> yaml_node list \<Rightarrow> nat \<Rightarrow> node_ref \<Rightarrow> string list \<Rightarrow> TagLocation list \<Rightarrow> error + TagLocation list"
  and mappingLoop ::
    "libraries \<Rightarrow> yaml_node list \<Rightarrow> nat \<Rightarrow> node_ref \<Rightarrow> string list \<Rightarrow> TagLocation list \<Rightarrow> error + TagLocation list"
  and sequenceLoop ::
    "libraries \<Rightarrow> yaml_node list \<Rightarrow> nat \<Rightarrow> node_ref \<Rightarrow> string list \<Rightarrow> TagLocation list \<Rightarrow> error + TagLocation list"
  where
  "findTagLocations lib (YamlNode k v l c a kids) ref path acc =
     (if k = DocumentNode then documentLoop lib kids 0 ref path acc
      else if k = MappingNode then mappingLoop lib kids 0 ref path acc
      else if k = SequenceNode then sequenceLoop lib kids 0 ref path acc
      else Inr acc)"
| "documentLoop lib [] i ref path acc = Inr acc"
| "documentLoop lib (child # rest) i ref path acc =
     (case findTagLocations lib child (ref @ [i]) path acc of
        Inl e \<Rightarrow> Inl e
      | Inr acc' \<Rightarrow> documentLoop lib rest (i + 1) ref path acc')"
| "mappingLoop lib [] i ref path acc = Inr acc"
| "mappingLoop lib [keyNode] i ref path acc = Inl (Panic ''index out of range'')"
| "mappingLoop lib (keyNode # valueNode # rest) i ref path acc =
     (if Value keyNode \<noteq> [] then
        (let nodePath = path @ [Value keyNode];
             acc1 =
               (if isTagField lib (Value keyNode) valueNode
                then acc @ [\<lparr>Path = nodePath, LocLine = Line valueNode,
                             LocColumn = Column valueNode, LocValue = Value valueNode,
                             Node = Some (ref @ [i + 1])\<rparr>]
                else acc)
         in case findTagLocations lib valueNode (ref @ [i + 1]) nodePath acc1 of
              Inl e \<Rightarrow> Inl e
            | Inr acc' \<Rightarrow> mappingLoop lib rest (i + 2) ref path acc')
      else mappingLoop lib rest (i + 2) ref path acc)"
| "sequenceLoop lib [] i ref path acc = Inr acc"
| "sequenceLoop lib (child # rest) i ref path acc =
     (case findTagLocations lib child (ref @ [i]) (path @ [''['' @ showNat i @ '']'']) acc of
        Inl e \<Rightarrow> Inl e
      | Inr acc' \<Rightarrow> sequenceLoop lib rest (i + 1) ref path acc')"
  by pat_completeness auto
termination
  by (relation "measure (\<lambda>x. case x of
      Inl (Inl (lib, n, _)) \<Rightarrow> size n
    | Inl (Inr (lib, kids, _)) \<Rightarrow> size_list size kids
    | Inr (Inl (lib, kids, _)) \<Rightarrow> size_list size kids
    | Inr (Inr (lib, kids, _)) \<Rightarrow> size_list size kids)") simp_all

fun segmentsEqual :: "string list \<Rightarrow> string list \<Rightarrow> bool" where
  "segmentsEqual [] path2 = True"
| "segmentsEqual (segment # rest) [] = False"
| "segmentsEqual (segment # rest) (s2 # rest2) =
     (if segment \<noteq> s2 then False else segmentsEqual rest rest2)"

definition pathsEqual :: "string list \<Rightarrow> string list \<Rightarrow> bool" where
  "pathsEqual path1 path2 =
     (if length path1 \<noteq> length path2 then False else segmentsEqual path1 path2)"

fun findTagByPathIn :: "TagLocation list \<Rightarrow> string list \<Rightarrow> TagLocation option" where
  "findTagByPathIn [] targetPath = None"
| "findTagByPathIn (location # rest) targetPath =
     (if pathsEqual (Path location) targetPath then Some location
      else findTagByPathIn rest targetPath)"

definition findTagByPath :: "ParseResult \<Rightarrow> string list \<Rightarrow> TagLocation option" where
  "findTagByPath parseResult targetPath = findTagByPathIn (TagLocations parseResult) targetPath"

text \<open>
  \<open>ParseContent\<close>. When the decoder fails, the Go function returns the error together
  with a result whose \<open>IsValid\<close> is false; every caller drops that result, and the model
  returns the error alone.
\<close>

definition ParseContent :: "libraries \<Rightarrow> string \<Rightarrow> error + ParseResult" where
  "ParseContent lib content =
     (if content = [] then Inl (AppErr (NewValidationError ''YAML content cannot be empty''))
      else if length content > MaxFileSize then
        Inl (AppErr (NewValidationError
          (''YAML content too large: '' @ showNat (length content) @ '' bytes (max '' @
           showNat MaxFileSize @ '')'')))
      else
        (case Unmarshal lib content of
           Inl err \<Rightarrow> Inl (AppErr (NewInvalidYAMLError (''failed to parse YAML: '' @ err)))
         | Inr rootNode \<Rightarrow>
             (case findTagLocations lib rootNode [] [] [] of
                Inl e \<Rightarrow> Inl e
              | Inr locations \<Rightarrow>
                  Inr \<lparr>DocContent = Some rootNode, TagLocations = locations,
                       OriginalContent = content, IsValid = True, Errors = []\<rparr>)))"

definition createAndUpdateTag :: "ParseResult \<Rightarrow> UpdateOptions \<Rightarrow> error + string" where
  "createAndUpdateTag parseResult options =
     Inl (AppErr (NewValidationError ''creating new tags is not implemented yet''))"

text \<open>The assignment \<open>tagLocation.Node.Value = options.NewValue\<close>, on the tree.\<close>

definition assignNodeValue :: "ParseResult \<Rightarrow> TagLocation \<Rightarrow> string \<Rightarrow> ParseResult" where
  "assignNodeValue parseResult tagLocation newValue =
     (case Node tagLocation of
        None \<Rightarrow> parseResult
      | Some ref \<Rightarrow>
          parseResult\<lparr>DocContent := map_option (setValueAt ref newValue) (DocContent parseResult)\<rparr>)"

definition encodeContent :: "Parser \<Rightarrow> libraries \<Rightarrow> string \<Rightarrow> ParseResult \<Rightarrow> error + string" where
  "encodeContent p lib what parseResult =
     (if indentation p < 0 then
        Inl (Panic ''yaml: cannot indent to a negative number of spaces'')
      else
        (case Encode lib (indentation p) (DocContent parseResult) of
           EncodeFailed err \<Rightarrow>
             Inl (AppErr (NewInvalidYAMLError (''failed to '' @ what @ '' YAML: '' @ err)))
         | CloseFailed err \<Rightarrow>
             Inl (AppErr (NewInvalidYAMLError (''failed to close YAML encoder: '' @ err)))
         | Encoded text \<Rightarrow> Inr text))"

text \<open>
  \<open>UpdateTag\<close> returns the encoded text. It also changes the tree of the parse result
  in place (\<open>assignNodeValue\<close>); no caller uses the parse result afterwards.
\<close>

definition UpdateTag ::
    "Parser \<Rightarrow> libraries \<Rightarrow> ParseResult option \<Rightarrow> UpdateOptions option \<Rightarrow> error + string" where
  "UpdateTag p lib parseResult options =
     (case parseResult of
        None \<Rightarrow> Inl (AppErr (NewValidationError ''parse result cannot be nil''))
      | Some pr \<Rightarrow>
     (case options of
        None \<Rightarrow> Inl (AppErr (NewValidationError ''update options cannot be nil''))
      | Some opts \<Rightarrow>
          if NewValue opts = [] then
            Inl (AppErr (NewValidationError ''new tag value cannot be empty''))
          else if length (NewValue opts) > MaxTagValueLength then
            Inl (AppErr (NewValidationError
              (''tag value too long: '' @ showNat (length (NewValue opts)) @
               '' characters (max '' @ showNat MaxTagValueLength @ '')'')))
          else
            (case findTagByPath pr (TagPath opts) of
               None \<Rightarrow>
                 if CreateIfMissing opts then createAndUpdateTag pr opts
                 else Inl (AppErr (NewValidationError
                        (''tag not found at path: '' @ showStrings (TagPath opts))))
             | Some tagLocation \<Rightarrow>
                 encodeContent p lib ''encode updated''
                   (assignNodeValue pr tagLocation (NewValue opts)))))"

definition commonTagPaths :: "string list list" where
  "commonTagPaths =
     [[''tag''],
      [''image'', ''tag''],
      [''spec'', ''template'', ''spec'', ''containers'', ''image''],
      [''spec'', ''containers'', ''image''],
      [''metadata'', ''labels'', ''version''],
      [''version'']]"

text \<open>The loop of \<open>UpdateTagSimple\<close> over the common paths.\<close>

fun probeTagPaths ::
    "Parser \<Rightarrow> libraries \<Rightarrow> ParseResult \<Rightarrow> string \<Rightarrow> string list list \<Rightarrow> error + string" where
  "probeTagPaths p lib parseResult newTag [] =
     Inl (AppErr (NewValidationError ''no suitable tag field found in YAML content''))"
| "probeTagPaths p lib parseResult newTag (tagPath # rest) =
     (let options = \<lparr>TagPath = tagPath, NewValue = newTag, CreateIfMissing = False,
                      BackupContent = False\<rparr>
      in if findTagByPath parseResult tagPath \<noteq> None
         then UpdateTag p lib (Some parseResult) (Some options)
         else probeTagPaths p lib parseResult newTag rest)"

definition UpdateTagSimple :: "Parser \<Rightarrow> libraries \<Rightarrow> string \<Rightarrow> string \<Rightarrow> error + string" where
  "UpdateTagSimple p lib content newTag =
     (case ParseContent lib content of
        Inl err \<Rightarrow> Inl (Wrapped ''failed to parse YAML content'' err)
      | Inr parseResult \<Rightarrow> probeTagPaths p lib parseResult newTag commonTagPaths)"

definition ValidateYAML :: "libraries \<Rightarrow> string \<Rightarrow> error option" where
  "ValidateYAML lib content =
     (if content = [] then Some (AppErr (NewValidationError ''YAML content cannot be empty''))
      else
        (case UnmarshalValue lib content of
           Some err \<Rightarrow> Some (AppErr (NewInvalidYAMLError (''invalid YAML syntax: '' @ err)))
         | None \<Rightarrow> None))"


section \<open>The file system (package os)\<close>

text \<open>
  The files are a map from path to content; a path names a file as it is spelled, and
  directories are not represented. Every call is recorded in \<open>calls\<close>, oldest first.
  Any call may fail: \<open>faults n\<close> is the error of the call number \<open>n\<close> (counting from 0)
  if that call is made to fail from outside, for lack of permission or space, say.
  A failed call changes no file. \<open>clock\<close> is the reading of \<open>time.Now()\<close>, already
  formatted with \<open>BackupTimestampFormat\<close>.
\<close>

datatype syscall =
  SysStat string
| SysReadFile string
| SysWriteFile string string
| SysRename string string
| SysRemove string
| SysMkdirAll string

record os_state =
  files :: "string \<rightharpoonup> string"
  calls :: "syscall list"
  faults :: "nat \<Rightarrow> string option"
  clock :: string

definition issue :: "syscall \<Rightarrow> os_state \<Rightarrow> string option \<times> os_state" where
  "issue c s = (faults s (length (calls s)), s\<lparr>calls := calls s @ [c]\<rparr>)"

definition noSuchFile :: "string \<Rightarrow> string \<Rightarrow> string" where
  "noSuchFile op path = op @ '' '' @ path @ '': no such file or directory''"

definition os_Stat :: "string \<Rightarrow> os_state \<Rightarrow> string option \<times> os_state" where
  "os_Stat path s =
     (case issue (SysStat path) s of
        (Some err, s') \<Rightarrow> (Some err, s')
      | (None, s') \<Rightarrow>
          (if files s' path = None then Some (noSuchFile ''stat'' path) else None, s'))"

definition os_ReadFile :: "string \<Rightarrow> os_state \<Rightarrow> (string + string) \<times> os_state" where
  "os_ReadFile path s =
     (case issue (SysReadFile path) s of
        (Some err, s') \<Rightarrow> (Inl err, s')
      | (None, s') \<Rightarrow>
          (case files s' path of
             None \<Rightarrow> (Inl (noSuchFile ''open'' path), s')
           | Some content \<Rightarrow> (Inr content, s')))"

definition os_WriteFile :: "string \<Rightarrow> string \<Rightarrow> os_state \<Rightarrow> string option \<times> os_state" where
  "os_WriteFile path content s =
     (case issue (SysWriteFile path content) s of
        (Some err, s') \<Rightarrow> (Some err, s')
      | (None, s') \<Rightarrow> (None, s'\<lparr>files := (files s')(path \<mapsto> content)\<rparr>))"

definition os_Rename :: "string \<Rightarrow> string \<Rightarrow> os_state \<Rightarrow> string option \<times> os_state" where
  "os_Rename oldpath newpath s =
     (case issue (SysRename oldpath newpath) s of
        (Some err, s') \<Rightarrow> (Some err, s')
      | (None, s') \<Rightarrow>
          (case files s' oldpath of
             None \<Rightarrow> (Some (noSuchFile ''rename'' (oldpath @ '' '' @ newpath)), s')
           | Some content \<Rightarrow>
               if oldpath = newpath then (None, s')
               else (None, s'\<lparr>files := ((files s')(newpath \<mapsto> content))(oldpath := None)\<rparr>)))"

definition os_Remove :: "string \<Rightarrow> os_state \<Rightarrow> string option \<times> os_state" where
  "os_Remove path s =
     (case issue (SysRemove path) s of
        (Some err, s') \<Rightarrow> (Some err, s')
      | (None, s') \<Rightarrow>
          (if files s' path = None then (Some (noSuchFile ''remove'' path), s')
           else (None, s'\<lparr>files := (files s')(path := None)\<rparr>)))"

definition os_MkdirAll :: "string \<Rightarrow> os_state \<Rightarrow> string option \<times> os_state" where
  "os_MkdirAll path s = issue (SysMkdirAll path) s"

section \<open>The updater (internal/yaml/updater.go)\<close>

definition TempFileSuffix :: string where "TempFileSuffix = ''.tmp''"

record Updater =
  parser :: Parser
  backupDir :: string
  keepBackups :: bool
  atomicWrite :: bool

text \<open>\<open>UpdateRequest\<close>: the field \<open>TagPath\<close> is named \<open>ReqTagPath\<close> here.\<close>

record UpdateRequest =
  FilePath :: string
  NewTagValue :: string
  ReqTagPath :: "string list"
  CreateBackup :: bool
  ValidateAfter :: bool
  DryRun :: bool


definition NewUpdater :: Updater where
  "NewUpdater = \<lparr>parser = NewParser, backupDir = [], keepBackups = True, atomicWrite = True\<rparr>"

definition NewUpdaterWithOptions :: "string \<Rightarrow> bool \<Rightarrow> bool \<Rightarrow> Updater" where
  "NewUpdaterWithOptions dir keep atomic =
     \<lparr>parser = NewParser, backupDir = dir, keepBackups = keep, atomicWrite = atomic\<rparr>"

definition fileExists :: "libraries \<Rightarrow> string \<Rightarrow> os_state \<Rightarrow> bool \<times> os_state" where
  "fileExists lib filePath s =
     (case validateAndCleanFilePath lib filePath of
        Inl err \<Rightarrow> (False, s)
      | Inr cleanPath \<Rightarrow>
          (case os_Stat cleanPath s of (err, s') \<Rightarrow> (err = None, s')))"

definition readFile :: "libraries \<Rightarrow> string \<Rightarrow> os_state \<Rightarrow> (error + string) \<times> os_state" where
  "readFile lib filePath s =
     (case validateAndCleanFilePath lib filePath of
        Inl err \<Rightarrow> (Inl err, s)
      | Inr cleanPath \<Rightarrow>
          (case fileExists lib cleanPath s of
             (False, s1) \<Rightarrow> (Inl (AppErr (NewFileNotFoundError cleanPath)), s1)
           | (True, s1) \<Rightarrow>
               (case os_ReadFile cleanPath s1 of
                  (Inl err, s2) \<Rightarrow>
                    (Inl (AppErr (NewFileSystemError
                       (''failed to read file '' @ cleanPath @ '': '' @ err))), s2)
                | (Inr content, s2) \<Rightarrow> (Inr content, s2))))"

definition writeFileAtomic :: "string \<Rightarrow> string \<Rightarrow> os_state \<Rightarrow> error option \<times> os_state" where
  "writeFileAtomic filePath content s =
     (let dir = Dir filePath;
          base = Base filePath;
          tempPath = Join [dir, base @ TempFileSuffix]
      in case os_WriteFile tempPath content s of
           (Some err, s1) \<Rightarrow>
             (Some (AppErr (NewFileSystemError (''failed to write temporary file: '' @ err))), s1)
         | (None, s1) \<Rightarrow>
             (case os_Rename tempPath filePath s1 of
                (Some err, s2) \<Rightarrow>
                  (case os_Remove tempPath s2 of
                     (ignored, s3) \<Rightarrow>
                       (Some (AppErr (NewFileSystemError
                          (''failed to rename temporary file: '' @ err))), s3))
              | (None, s2) \<Rightarrow> (None, s2)))"

definition writeFile :: "Updater \<Rightarrow> libraries \<Rightarrow> string \<Rightarrow> string \<Rightarrow> os_state \<Rightarrow> error option \<times> os_state" where
  "writeFile u lib filePath content s =
     (case validateAndCleanFilePath lib filePath of
        Inl err \<Rightarrow> (Some err, s)
      | Inr cleanPath \<Rightarrow>
          if atomicWrite u then writeFileAtomic cleanPath content s
          else
            (case os_WriteFile cleanPath content s of
               (Some err, s1) \<Rightarrow>
                 (Some (AppErr (NewFileSystemError
                    (''failed to write file '' @ cleanPath @ '': '' @ err))), s1)
             | (None, s1) \<Rightarrow> (None, s1)))"



definition RollbackFromBackup ::
    "Updater \<Rightarrow> libraries \<Rightarrow> string \<Rightarrow> string \<Rightarrow> os_state \<Rightarrow> error option \<times> os_state" where
  "RollbackFromBackup u lib filePath backupPath s =
     (if filePath = [] then
        (Some (AppErr (NewValidationError ''file path cannot be empty'')), s)
      else if backupPath = [] then
        (Some (AppErr (NewValidationError ''backup path cannot be empty'')), s)
      else
        (case fileExists lib backupPath s of
           (False, s1) \<Rightarrow> (Some (AppErr (NewFileNotFoundError backupPath)), s1)
         | (True, s1) \<Rightarrow>
             (case readFile lib backupPath s1 of
                (Inl err, s2) \<Rightarrow>
                  (Some (Wrapped (''failed to read backup file '' @ backupPath) err), s2)
              | (Inr backupContent, s2) \<Rightarrow>
                  (case ValidateYAML lib backupContent of
                     Some err \<Rightarrow> (Some (Wrapped ''backup file contains invalid YAML'' err), s2)
                   | None \<Rightarrow>
                       (case writeFile u lib filePath backupContent s2 of
                          (Some err, s3) \<Rightarrow>
                            (Some (Wrapped ''failed to restore file from backup'' err), s3)
                        | (None, s3) \<Rightarrow> (None, s3))))))"

text \<open>
  \<open>autoDetectTagPath\<close>: the inner loop over the locations is \<open>firstWithLastSegment\<close>,
  the outer loop over the preferred names is \<open>preferredLoop\<close>.
\<close>

fun firstWithLastSegment :: "libraries \<Rightarrow> string \<Rightarrow> TagLocation list \<Rightarrow> string list option" where
  "firstWithLastSegment lib preferred [] = None"
| "firstWithLastSegment lib preferred (location # rest) =
     (if length (Path location) > 0 \<and> ToLower lib (last (Path location)) = preferred
      then Some (Path location)
      else firstWithLastSegment lib preferred rest)"

fun preferredLoop :: "libraries \<Rightarrow> string list \<Rightarrow> TagLocation list \<Rightarrow> string list option" where
  "preferredLoop lib [] locations = None"
| "preferredLoop lib (preferred # rest) locations =
     (case firstWithLastSegment lib preferred locations of
        Some path \<Rightarrow> Some path
      | None \<Rightarrow> preferredLoop lib rest locations)"

definition preferredPaths :: "string list" where
  "preferredPaths = [''tag'', ''version'', ''image'']"

definition autoDetectTagPath :: "libraries \<Rightarrow> ParseResult \<Rightarrow> error + string list" where
  "autoDetectTagPath lib parseResult =
     (if length (TagLocations parseResult) = 0 then
        Inl (AppErr (NewValidationError ''no tag fields found in YAML content''))
      else
        (case preferredLoop lib preferredPaths (TagLocations parseResult) of
           Some path \<Rightarrow> Inr path
         | None \<Rightarrow> Inr (Path (hd (TagLocations parseResult)))))"


section \<open>The traversal as a list of fields\<close>

text \<open>
  \<open>tagFields\<close> lists, in depth-first pre-order, the location of every mapping field
  with a non-empty key that \<open>isTagField\<close> accepts, each with the position of its value
  node. \<open>walkable\<close> says that the traversal meets no mapping with a key that lacks its
  value. Both follow the description of the traversal, not its code: the code threads
  an accumulator and may panic.
\<close>

definition locationOf :: "string list \<Rightarrow> yaml_node \<Rightarrow> node_ref \<Rightarrow> TagLocation" where
  "locationOf nodePath valueNode ref =
     \<lparr>Path = nodePath, LocLine = Line valueNode, LocColumn = Column valueNode,
      LocValue = Value valueNode, Node = Some ref\<rparr>"

function (sequential) tagFields :: "libraries \<Rightarrow> yaml_node \<Rightarrow> node_ref \<Rightarrow> string list \<Rightarrow> TagLocation list"
  and tagFieldsDocument :: "libraries \<Rightarrow> yaml_node list \<Rightarrow> nat \<Rightarrow> node_ref \<Rightarrow> string list \<Rightarrow> TagLocation list"
  and tagFieldsMapping :: "libraries \<Rightarrow> yaml_node list \<Rightarrow> nat \<Rightarrow> node_ref \<Rightarrow> string list \<Rightarrow> TagLocation list"
  and tagFieldsSequence :: "libraries \<Rightarrow> yaml_node list \<Rightarrow> nat \<Rightarrow> node_ref \<Rightarrow> string list \<Rightarrow> TagLocation list"
  where
  "tagFields lib (YamlNode k v l c a kids) ref path =
     (if k = DocumentNode then tagFieldsDocument lib kids 0 ref path
      else if k = MappingNode then tagFieldsMapping lib kids 0 ref path
      else if k = SequenceNode then tagFieldsSequence lib kids 0 ref path
      else [])"
| "tagFieldsDocument lib [] i ref path = []"
| "tagFieldsDocument lib (child # rest) i ref path =
     tagFields lib child (ref @ [i]) path @ tagFieldsDocument lib rest (i + 1) ref path"
| "tagFieldsMapping lib [] i ref path = []"
| "tagFieldsMapping lib [keyNode] i ref path = []"
| "tagFieldsMapping lib (keyNode # valueNode # rest) i ref path =
     (if Value keyNode \<noteq> [] then
        (if isTagField lib (Value keyNode) valueNode
         then [locationOf (path @ [Value keyNode]) valueNode (ref @ [i + 1])] else []) @
        tagFields lib valueNode (ref @ [i + 1]) (path @ [Value keyNode])
      else []) @
     tagFieldsMapping lib rest (i + 2) ref path"
| "tagFieldsSequence lib [] i ref path = []"
| "tagFieldsSequence lib (child # rest) i ref path =
     tagFields lib child (ref @ [i]) (path @ [''['' @ showNat i @ '']'']) @
     tagFieldsSequence lib rest (i + 1) ref path"
  by pat_completeness auto
termination
  by (relation "measure (\<lambda>x. case x of
      Inl (Inl (lib, n, _)) \<Rightarrow> size n
    | Inl (Inr (lib, kids, _)) \<Rightarrow> size_list size kids
    | Inr (Inl (lib, kids, _)) \<Rightarrow> size_list size kids
    | Inr (Inr (lib, kids, _)) \<Rightarrow> size_list size kids)") simp_all

function (sequential) walkable :: "yaml_node \<Rightarrow> bool"
  and walkableChildren :: "yaml_node list \<Rightarrow> bool"
  and walkableMapping :: "yaml_node list \<Rightarrow> bool"
  where
  "walkable (YamlNode k v l c a kids) =
     (if k = DocumentNode then walkableChildren kids
      else if k = MappingNode then walkableMapping kids
      else if k = SequenceNode then walkableChildren kids
      else True)"
| "walkableChildren [] = True"
| "walkableChildren (child # rest) = (walkable child \<and> walkableChildren rest)"
| "walkableMapping [] = True"
| "walkableMapping [keyNode] = False"
| "walkableMapping (keyNode # valueNode # rest) =
     ((Value keyNode \<noteq> [] \<longrightarrow> walkable valueNode) \<and> walkableMapping rest)"
  by pat_completeness auto
termination
  by (relation "measure (\<lambda>x. case x of
      Inl n \<Rightarrow> size n
    | Inr (Inl kids) \<Rightarrow> size_list size kids
    | Inr (Inr kids) \<Rightarrow> size_list size kids)") simp_all

text \<open>The two ways in which a field can be accepted, in the words of the code.\<close>

definition keyNamesTag :: "libraries \<Rightarrow> string \<Rightarrow> bool" where
  "keyNamesTag lib key =
     (Contains (ToLower lib key) ''tag'' \<or> Contains (ToLower lib key) ''version'' \<or>
      Contains (ToLower lib key) ''image'' \<or> Contains (ToLower lib key) ''release'')"

definition valueLooksLikeTag :: "libraries \<Rightarrow> string \<Rightarrow> string \<Rightarrow> bool" where
  "valueLooksLikeTag lib key val =
     ((Contains (ToLower lib val) ''v'' \<or> Contains (ToLower lib val) ''-'') \<and>
      (Contains (ToLower lib val) ''tag'' \<or> Contains (ToLower lib val) ''version'' \<or>
       Contains key ''image''))"

text \<open>
  The heuristic as the specification words it: the key names a tag, or the value
  resembles a version and the key contains \<open>tag\<close>, \<open>version\<close> or \<open>image\<close>.
\<close>

definition specTagField :: "libraries \<Rightarrow> string \<Rightarrow> yaml_node \<Rightarrow> bool" where
  "specTagField lib key valueNode =
     (keyNamesTag lib key \<or>
      (Kind valueNode = ScalarNode \<and>
       (Contains (ToLower lib (Value valueNode)) ''v'' \<or>
        Contains (ToLower lib (Value valueNode)) ''.v'' \<or>
        Contains (ToLower lib (Value valueNode)) ''-'') \<and>
       (Contains (ToLower lib key) ''tag'' \<or> Contains (ToLower lib key) ''version'' \<or>
        Contains (ToLower lib key) ''image'')))"


section \<open>Example documents\<close>

definition plain :: "string \<Rightarrow> node_attrs" where
  "plain tag = \<lparr>Style = 0, Tag = tag, Anchor = [], HeadComment = [], LineComment = [],
                FootComment = []\<rparr>"

definition scalar :: "string \<Rightarrow> int \<Rightarrow> int \<Rightarrow> yaml_node" where
  "scalar v l c = YamlNode ScalarNode v l c (plain ''!!str'') []"

definition mapping :: "int \<Rightarrow> int \<Rightarrow> yaml_node list \<Rightarrow> yaml_node" where
  "mapping l c kids = YamlNode MappingNode [] l c (plain ''!!map'') kids"

definition document :: "yaml_node \<Rightarrow> yaml_node" where
  "document root = YamlNode DocumentNode [] 1 1 (plain []) [root]"

definition backslash :: char where "backslash = CHR 0x5C"

definition windowsTraversalPath :: string where
  "windowsTraversalPath =
     ''..'' @ [backslash] @ ''..'' @ [backslash] @ ''..'' @ [backslash] @ ''windows'' @
     [backslash] @ ''system32'' @ [backslash] @ ''config'' @ [backslash] @ ''sam''"

text \<open>
  A library given by two tables: the documents it can decode, each with its tree, and
  the trees it can encode, each with its text. The examples below list what yaml.v3
  does on the documents they use, at the indentation 2 of \<open>NewParser\<close>. The examples
  hold ASCII bytes alone, on which \<open>ToLower\<close> does not reach \<open>MapToLower\<close>; the table
  library leaves such a string as it is.
\<close>

definition tableLib :: "(string \<times> yaml_node) list \<Rightarrow> (yaml_node \<times> string) list \<Rightarrow> libraries" where
  "tableLib docs texts =
     \<lparr>Unmarshal = (\<lambda>content. case map_of docs content of
                     None \<Rightarrow> Inl ''yaml: document outside the table''
                   | Some n \<Rightarrow> Inr n),
      UnmarshalValue = (\<lambda>content. case map_of docs content of
                     None \<Rightarrow> Some ''yaml: document outside the table''
                   | Some n \<Rightarrow> None),
      Encode = (\<lambda>indent n. case Option.bind n (map_of texts) of
                     None \<Rightarrow> EncodeFailed ''yaml: tree outside the table''
                   | Some text \<Rightarrow> Encoded text),
      MapToLower = (\<lambda>s. s)\<rparr>"

definition newline :: char where "newline = CHR 0x0A"

text \<open>The document \<open>image:\n  tag: <v>\n\<close>.\<close>

definition imageText :: "string \<Rightarrow> string" where
  "imageText v = ''image:'' @ [newline] @ ''  tag: '' @ v @ [newline]"

definition imageDoc :: "string \<Rightarrow> yaml_node" where
  "imageDoc v =
     document (mapping 1 1
       [scalar ''image'' 1 1, mapping 2 3 [scalar ''tag'' 2 3, scalar v 2 8]])"

definition imageLib :: libraries where
  "imageLib =
     tableLib [(imageText ''v1.0.0'', imageDoc ''v1.0.0''),
               (imageText ''v2.0.0'', imageDoc ''v2.0.0'')]
              [(imageDoc ''v1.0.0'', imageText ''v1.0.0''),
               (imageDoc ''v2.0.0'', imageText ''v2.0.0'')]"

text \<open>The document \<open>foo: <v>\n\<close>.\<close>

definition fooText :: "string \<Rightarrow> string" where
  "fooText v = ''foo: '' @ v @ [newline]"

definition fooDoc :: "string \<Rightarrow> yaml_node" where
  "fooDoc v = document (mapping 1 1 [scalar ''foo'' 1 1, scalar v 1 6])"

definition fooLib :: libraries where
  "fooLib =
     tableLib [(fooText ''my-version'', fooDoc ''my-version''), (fooText ''abc'', fooDoc ''abc'')]
              [(fooDoc ''my-version'', fooText ''my-version''), (fooDoc ''abc'', fooText ''abc'')]"

text \<open>The document \<open>name: app\n\<close>, which has no tag field.\<close>

definition nameText :: string where
  "nameText = ''name: app'' @ [newline]"

definition nameDoc :: yaml_node where
  "nameDoc = document (mapping 1 1 [scalar ''name'' 1 1, scalar ''app'' 1 7])"

definition nameLib :: libraries where
  "nameLib = tableLib [(nameText, nameDoc)] [(nameDoc, nameText)]"

definition nameResult :: ParseResult where
  "nameResult =
     \<lparr>DocContent = Some nameDoc, TagLocations = [], OriginalContent = nameText,
      IsValid = True, Errors = []\<rparr>"

definition tagOptions :: "string list \<Rightarrow> string \<Rightarrow> UpdateOptions" where
  "tagOptions path v =
     \<lparr>TagPath = path, NewValue = v, CreateIfMissing = False, BackupContent = False\<rparr>"

text \<open>
  A file system that holds one file and lets every call through, and the request
  that updates the tag of that file to \<open>v2.0.0\<close> without naming a path.
\<close>

definition oneFile :: "string \<Rightarrow> string \<Rightarrow> os_state" where
  "oneFile path content =
     \<lparr>files = [path \<mapsto> content], calls = [], faults = (\<lambda>n. None),
      clock = ''20250629_120000''\<rparr>"

definition appRequest :: UpdateRequest where
  "appRequest =
     \<lparr>FilePath = ''app.yaml'', NewTagValue = ''v2.0.0'', ReqTagPath = [], CreateBackup = False,
      ValidateAfter = True, DryRun = True\<rparr>"

definition imageResult :: "string \<Rightarrow> ParseResult" where
  "imageResult v =
     \<lparr>DocContent = Some (imageDoc v),
      TagLocations = [locationOf [''image'', ''tag''] (scalar v 2 8) [0, 1, 1]],
      OriginalContent = imageText v, IsValid = True, Errors = []\<rparr>"



text \<open>
  A file system in which the second and the third call fail: in \<open>writeFileAtomic\<close>
  these are the rename and the removal of the temporary file.
\<close>

definition renameAndRemoveFail :: os_state where
  "renameAndRemoveFail =
     \<lparr>files = [''app.yaml'' \<mapsto> ''old''], calls = [],
      faults = (\<lambda>n. if n = 1 \<or> n = 2 then Some ''permission denied'' else None),
      clock = ''20250629_120000''\<rparr>"

definition renameFails :: os_state where
  "renameFails =
     \<lparr>files = [''app.yaml'' \<mapsto> ''old''], calls = [],
      faults = (\<lambda>n. if n = 1 then Some ''permission denied'' else None),
      clock = ''20250629_120000''\<rparr>"

text \<open>
  A file system with a live file and a backup of it whose content the library
  rejects, and a library that rejects every document.
\<close>

definition brokenBackup :: os_state where
  "brokenBackup =
     \<lparr>files = [''app.yaml'' \<mapsto> ''tag: v1'', ''app.yaml.backup'' \<mapsto> ''tag: [v1''],
      calls = [], faults = (\<lambda>n. None), clock = ''20250629_120000''\<rparr>"

definition rejectingLib :: libraries where
  "rejectingLib = tableLib [] []"

















section \<open>The shape of a cleaned path\<close>

text \<open>
  When a path ends in a piece without separator that is at least three characters
  long, \<open>Clean\<close> keeps that piece at the end, and what comes before it depends on the
  rest of the path alone: \<open>cleanPrefix\<close> is that part.
\<close>

definition cleanPrefix :: "string \<Rightarrow> string" where
  "cleanPrefix p =
     (let rooted = (p \<noteq> [] \<and> hd p = CHR ''/'');
          out = cleanElems rooted (butlast (splitSep p)) [] 0
      in (if rooted then ''/'' else []) @
         (if out = [] then [] else joinSep out @ ''/'') @
         last (splitSep p))"

text \<open>A path element that \<open>Clean\<close> copies.\<close>

definition realElem :: "string \<Rightarrow> bool" where
  "realElem e = (e \<noteq> [] \<and> e \<noteq> ''.'' \<and> e \<noteq> ''..'')"


definition isWrite :: "syscall \<Rightarrow> bool" where
  "isWrite c =
     (case c of SysStat p \<Rightarrow> False | SysReadFile p \<Rightarrow> False | SysWriteFile p d \<Rightarrow> True
      | SysRename a b \<Rightarrow> True | SysRemove p \<Rightarrow> True | SysMkdirAll p \<Rightarrow> True)"

text \<open>The temporary file of \<open>writeFileAtomic\<close>.\<close>

definition tempPathFor :: "string \<Rightarrow> string" where
  "tempPathFor filePath = Join [Dir filePath, Base filePath @ TempFileSuffix]"

text \<open>
  From \<open>s\<close> to \<open>s'\<close> only calls that read were made: no file has changed, and none of
  the calls recorded since \<open>s\<close> writes, renames, removes or creates.
\<close>

definition onlyReads :: "os_state \<Rightarrow> os_state \<Rightarrow> bool" where
  "onlyReads s s' =
     (files s' = files s \<and> faults s' = faults s \<and> clock s' = clock s \<and>
      (\<exists>cs. calls s' = calls s @ cs \<and> \<not> list_ex isWrite cs))"





section \<open>Trees of the same shape\<close>

text \<open>
  Two trees have the same shape when they agree in the kind and the value of every
  node; lines, columns, styles, tags and comments may differ. This is what the
  package can see of a tree.
\<close>

function (sequential) sameShape :: "yaml_node \<Rightarrow> yaml_node \<Rightarrow> bool"
  and sameShapeList :: "yaml_node list \<Rightarrow> yaml_node list \<Rightarrow> bool" where
  "sameShape (YamlNode k v l c a kids) (YamlNode k' v' l' c' a' kids') =
     (k = k' \<and> v = v' \<and> sameShapeList kids kids')"
| "sameShapeList [] [] = True"
| "sameShapeList (x # xs) (y # ys) = (sameShape x y \<and> sameShapeList xs ys)"
| "sameShapeList xs ys = False"
  by pat_completeness auto
termination
  by (relation "measure (\<lambda>x. case x of
      Inl (n, _) \<Rightarrow> size n
    | Inr (kids, _) \<Rightarrow> size_list size kids)") simp_all


text \<open>The location of the node at \<open>ref\<close> after the value \<open>v\<close> has been assigned to that node.\<close>

definition withValue :: "node_ref \<Rightarrow> string \<Rightarrow> TagLocation \<Rightarrow> TagLocation" where
  "withValue ref v location =
     (if Node location = Some ref then location\<lparr>LocValue := v\<rparr> else location)"


section \<open>Basic facts\<close>

lemma isValidationError_New [simp]: "isValidationError (AppErr (NewValidationError m))"
  by (simp add: isValidationError_def NewValidationError_def NewAppError_def)

lemma isValidationError_Wrapped [simp]: "isValidationError (Wrapped m e) = isValidationError e"
  by (simp add: isValidationError_def)

lemma isFileSystemError_New [simp]: "isFileSystemError (AppErr (NewFileSystemError m))"
  by (simp add: isFileSystemError_def NewFileSystemError_def NewAppError_def)

lemma isFileNotFoundError_New [simp]: "isFileNotFoundError (AppErr (NewFileNotFoundError p))"
  by (simp add: isFileNotFoundError_def NewFileNotFoundError_def NewAppErrorWithContext_def)

lemma validation_not_FileNotFound [simp]:
  "\<not> isFileNotFoundError (AppErr (NewValidationError m))"
  by (simp add: isFileNotFoundError_def NewValidationError_def NewAppError_def
      ErrCodeValidation_def ErrCodeFileNotFound_def)

text \<open>A string is ASCII when every byte of it is below 128.\<close>

lemma digit7_iff: "digit7 c \<longleftrightarrow> 128 \<le> (of_char c :: nat)"
  by (cases c) (simp add: of_char_def)

lemma isASCII_iff: "isASCII s \<longleftrightarrow> (\<forall>c \<in> set s. (of_char c :: nat) < 128)"
  by (auto simp: isASCII_def list_all_iff digit7_iff)

lemma ToLower_ASCII: "isASCII s \<Longrightarrow> ToLower lib s = map toLowerChar s"
  by (simp add: ToLower_def)

lemma HasPrefix_Contains: "HasPrefix s p \<Longrightarrow> Contains s p"
  by (cases s) (auto elim: HasPrefix.elims)

lemma Contains_dot_v: "Contains s ''.v'' \<Longrightarrow> Contains s ''v''"
proof (induction s)
  case Nil
  then show ?case by simp
next
  case (Cons c cs)
  show ?case
  proof (cases "HasPrefix (c # cs) ''.v''")
    case True
    then have "HasPrefix cs ''v''" by simp
    then have "Contains cs ''v''" by (rule HasPrefix_Contains)
    then show ?thesis by simp
  next
    case False
    with Cons show ?thesis by auto
  qed
qed

lemma isTagField_iff:
  "isTagField lib key n \<longleftrightarrow>
     Kind n = ScalarNode \<and> (keyNamesTag lib key \<or> valueLooksLikeTag lib key (Value n))"
  using Contains_dot_v [of "ToLower lib (Value n)"]
  by (auto simp: isTagField_def keyNamesTag_def valueLooksLikeTag_def tagPatterns_def Let_def)

lemma isTagField_unicode:
  assumes "\<not> isASCII key" "MapToLower lib key = ''image''" "Kind n = ScalarNode"
  shows "isTagField lib key n"
  using assms by (simp add: isTagField_def tagPatterns_def ToLower_def)

lemma segmentsEqual_iff: "length a = length b \<Longrightarrow> segmentsEqual a b \<longleftrightarrow> a = b"
  by (induction a b rule: list_induct2) auto

lemma pathsEqual_iff: "pathsEqual a b \<longleftrightarrow> a = b"
  by (auto simp: pathsEqual_def segmentsEqual_iff)

lemma findTagByPathIn_find: "findTagByPathIn locs p = find (\<lambda>l. Path l = p) locs"
  by (induction locs) (simp_all add: pathsEqual_iff)

lemma findTagByPathIn_None:
  "findTagByPathIn locs p = None \<longleftrightarrow> (\<forall>l \<in> set locs. Path l \<noteq> p)"
  by (auto simp: findTagByPathIn_find find_None_iff)

text \<open>The traversal appends the fields of \<open>tagFields\<close> to what it was given, or panics.\<close>

lemma findTagLocations_tagFields:
  "findTagLocations lib n ref path acc =
     (if walkable n then Inr (acc @ tagFields lib n ref path)
      else Inl (Panic ''index out of range''))"
  "documentLoop lib kids i ref path acc =
     (if walkableChildren kids then Inr (acc @ tagFieldsDocument lib kids i ref path)
      else Inl (Panic ''index out of range''))"
  "mappingLoop lib kids i ref path acc =
     (if walkableMapping kids then Inr (acc @ tagFieldsMapping lib kids i ref path)
      else Inl (Panic ''index out of range''))"
  "sequenceLoop lib kids i ref path acc =
     (if walkableChildren kids then Inr (acc @ tagFieldsSequence lib kids i ref path)
      else Inl (Panic ''index out of range''))"
  by (induction lib n ref path acc and lib kids i ref path acc and lib kids i ref path acc
        and lib kids i ref path acc
      rule: findTagLocations_documentLoop_mappingLoop_sequenceLoop.induct)
     (simp_all add: locationOf_def Let_def)

section \<open>Path validation\<close>

text \<open>
  Claim C1. The validator rejects \<open>../../../etc/passwd\<close>, \<open>/etc/passwd\<close> and the
  Windows-style traversal path, and accepts \<open>/tmp/foo.yaml\<close> and \<open>config/app.yaml\<close>.
  It also accepts the relative paths \<open>etc/passwd\<close> and \<open>usr/local/bin/test\<close>, whose
  first segment names a system directory: no check of the code looks at the segments
  of a relative path.
\<close>

theorem validateAndCleanFilePath_samples:
  "isl (validateAndCleanFilePath lib ''../../../etc/passwd'') \<and>
   isl (validateAndCleanFilePath lib ''/etc/passwd'') \<and>
   isl (validateAndCleanFilePath lib windowsTraversalPath) \<and>
   validateAndCleanFilePath lib ''/tmp/foo.yaml'' = Inr ''/tmp/foo.yaml'' \<and>
   validateAndCleanFilePath lib ''config/app.yaml'' = Inr ''config/app.yaml'' \<and>
   validateAndCleanFilePath lib ''etc/passwd'' = Inr ''etc/passwd'' \<and>
   validateAndCleanFilePath lib ''usr/local/bin/test'' = Inr ''usr/local/bin/test''"
  by (simp add: windowsTraversalPath_def backslash_def validateAndCleanFilePath_def Clean_def
      PathTraversalPattern_def IsAbs_def WindowsDriveLetterSeparator_def UnixTempDir_def
      UnixVarTempDir_def ToLower_def isASCII_def toLowerChar_def Let_def)

section \<open>The parser\<close>

lemmas ex_defs = imageLib_def imageText_def imageDoc_def fooLib_def fooText_def fooDoc_def
  nameLib_def nameText_def nameDoc_def nameResult_def tableLib_def document_def mapping_def scalar_def
  plain_def newline_def tagOptions_def oneFile_def appRequest_def imageResult_def
  locationOf_def
lemmas kind_defs = DocumentNode_def MappingNode_def SequenceNode_def ScalarNode_def AliasNode_def

lemmas os_defs = issue_def os_Stat_def os_ReadFile_def os_WriteFile_def os_Rename_def os_Remove_def os_MkdirAll_def
lemmas path_defs = validateAndCleanFilePath_def Clean_def PathTraversalPattern_def IsAbs_def
  WindowsDriveLetterSeparator_def UnixTempDir_def UnixVarTempDir_def Dir_def Base_def Join_def
lemmas tag_defs = isTagField_def tagPatterns_def ToLower_def isASCII_def toLowerChar_def


text \<open>
  Claim C4, as the specification words it, fails in both directions: the field
  \<open>foo: my-version\<close> is accepted although its key names no tag, because its value
  contains \<open>version\<close>; and the field \<open>image:\<close> with a mapping as its value is not
  accepted although its key names a tag, because only scalar values are.
\<close>

theorem tag_field_counterexample:
  "\<forall>lib.
     isTagField lib ''foo'' (scalar ''my-version'' 1 6) \<and>
     \<not> specTagField lib ''foo'' (scalar ''my-version'' 1 6) \<and>
     \<not> isTagField lib ''image'' (mapping 2 3 [scalar ''tag'' 2 3, scalar ''v1.0.0'' 2 8]) \<and>
     specTagField lib ''image'' (mapping 2 3 [scalar ''tag'' 2 3, scalar ''v1.0.0'' 2 8])"
  by (simp add: isTagField_def specTagField_def keyNamesTag_def tagPatterns_def ex_defs kind_defs
      ToLower_def isASCII_def toLowerChar_def Let_def)

text \<open>
  Claim C4, amended. A field is accepted exactly when its value node is a scalar and
  either the lower-cased key contains \<open>tag\<close>, \<open>version\<close>, \<open>image\<close> or \<open>release\<close>, or the
  lower-cased value contains \<open>v\<close> or \<open>-\<close> and also \<open>tag\<close> or \<open>version\<close> (or the key as
  written contains \<open>image\<close>). On a tree in which every mapping key has its value, the
  traversal returns the locations it was given followed by the accepted fields with a
  non-empty key, in depth-first pre-order.
\<close>

theorem tag_field_classification:
  "(isTagField lib key valueNode \<longleftrightarrow>
      Kind valueNode = ScalarNode \<and>
      (keyNamesTag lib key \<or> valueLooksLikeTag lib key (Value valueNode))) \<and>
   (walkable n \<longrightarrow> findTagLocations lib n ref path acc = Inr (acc @ tagFields lib n ref path))"
  by (simp add: isTagField_iff findTagLocations_tagFields)

theorem tag_field_classification_witness:
  "isTagField fooLib ''foo'' (scalar ''my-version'' 1 6) \<and>
   walkable (fooDoc ''my-version'') \<and>
   findTagLocations fooLib (fooDoc ''my-version'') [] [] [] =
     Inr [locationOf [''foo''] (scalar ''my-version'' 1 6) [0, 1]]"
  using tag_field_classification [of fooLib "''foo''" "scalar ''my-version'' 1 6" "fooDoc ''my-version''" "[]" "[]" "[]"]
  by (simp add: keyNamesTag_def valueLooksLikeTag_def ex_defs kind_defs
      ToLower_def isASCII_def toLowerChar_def Let_def isTagField_def tagPatterns_def)


text \<open>
  Claim C2, as stated, fails on the kind of the error: a path that matches no location
  gives a validation error (code 1007), not an error with the not-found code.
\<close>

theorem UpdateTag_not_found_counterexample:
  "UpdateTag NewParser nameLib (Some nameResult) (Some (tagOptions [''tag''] ''v2.0.0'')) =
     Inl (AppErr (NewValidationError ''tag not found at path: [tag]'')) \<and>
   \<not> hasNotFoundCode (AppErr (NewValidationError ''tag not found at path: [tag]''))"
  by (simp add: UpdateTag_def ex_defs MaxTagValueLength_def findTagByPath_def showStrings_def
      hasNotFoundCode_def NewValidationError_def NewAppError_def ErrCodeValidation_def ErrCodeFileNotFound_def)

text \<open>
  Claim C2, amended. Two paths are equal for \<open>pathsEqual\<close> exactly when they are the
  same list of segments. \<open>UpdateTag\<close> fails with a validation error when the new value
  is empty or longer than 256 bytes, whatever the parse result and the path are; and,
  for a value that passes these checks, when no location has the path of the options
  and \<open>CreateIfMissing\<close> is false.
\<close>

theorem UpdateTag_failures:
  "pathsEqual path1 path2 = (path1 = path2) \<and>
   isValidationError (AppErr (NewValidationError message)) \<and>
   (NewValue opts = [] \<longrightarrow>
      UpdateTag p lib (Some pr) (Some opts) =
        Inl (AppErr (NewValidationError ''new tag value cannot be empty''))) \<and>
   (length (NewValue opts) > MaxTagValueLength \<longrightarrow>
      UpdateTag p lib (Some pr) (Some opts) =
        Inl (AppErr (NewValidationError
          (''tag value too long: '' @ showNat (length (NewValue opts)) @
           '' characters (max '' @ showNat MaxTagValueLength @ '')'')))) \<and>
   (NewValue opts \<noteq> [] \<and> length (NewValue opts) \<le> MaxTagValueLength \<and>
    (\<forall>loc \<in> set (TagLocations pr). Path loc \<noteq> TagPath opts) \<and> \<not> CreateIfMissing opts \<longrightarrow>
      UpdateTag p lib (Some pr) (Some opts) =
        Inl (AppErr (NewValidationError
          (''tag not found at path: '' @ showStrings (TagPath opts)))))"
  by (auto simp: pathsEqual_iff UpdateTag_def findTagByPath_def findTagByPathIn_None[symmetric] MaxTagValueLength_def
      split: option.splits)

lemma showNat_257: "showNat 257 = ''257''"
  by (simp add: showNat.simps)

lemma showNat_256: "showNat 256 = ''256''"
  by (simp add: showNat.simps)


theorem UpdateTag_failures_witness:
  "\<not> pathsEqual [''image'', ''tag''] [''tag'', ''image''] \<and>
   UpdateTag NewParser nameLib (Some nameResult) (Some (tagOptions [''tag''] [])) =
     Inl (AppErr (NewValidationError ''new tag value cannot be empty'')) \<and>
   UpdateTag NewParser imageLib (Some (imageResult ''v1.0.0''))
       (Some (tagOptions [''image'', ''tag''] (replicate 257 (CHR ''a'')))) =
     Inl (AppErr (NewValidationError ''tag value too long: 257 characters (max 256)'')) \<and>
   UpdateTag NewParser nameLib (Some nameResult) (Some (tagOptions [''tag''] ''v2.0.0'')) =
     Inl (AppErr (NewValidationError ''tag not found at path: [tag]''))"
  using UpdateTag_failures [of "[''image'', ''tag'']" "[''tag'', ''image'']" "[]"
      "tagOptions [''tag''] []" NewParser nameLib nameResult]
    UpdateTag_failures [of "[]" "[]" "[]"
      "tagOptions [''image'', ''tag''] (replicate 257 (CHR ''a''))" NewParser imageLib
      "imageResult ''v1.0.0''"]
    UpdateTag_failures [of "[]" "[]" "[]"
      "tagOptions [''tag''] ''v2.0.0''" NewParser nameLib nameResult]
  by (simp add: tagOptions_def MaxTagValueLength_def showNat_257 showNat_256 nameResult_def
      showStrings_def)

section \<open>Updating without a path\<close>

lemma probeTagPaths_find:
  "probeTagPaths p lib pr newTag paths =
     (case find (\<lambda>path. \<exists>loc \<in> set (TagLocations pr). Path loc = path) paths of
        None \<Rightarrow> Inl (AppErr (NewValidationError ''no suitable tag field found in YAML content''))
      | Some path \<Rightarrow> UpdateTag p lib (Some pr) (Some (tagOptions path newTag)))"
  by (induction paths)
     (auto simp: findTagByPath_def findTagByPathIn_None tagOptions_def)

text \<open>
  Claim C3. \<open>UpdateTagSimple\<close> parses the content, and on the parse result applies
  \<open>UpdateTag\<close> at the first of the six common paths that is the path of a detected
  location; when none is, it fails with a validation error.
\<close>

theorem UpdateTagSimple_probe_order:
  "commonTagPaths =
     [[''tag''], [''image'', ''tag''],
      [''spec'', ''template'', ''spec'', ''containers'', ''image''],
      [''spec'', ''containers'', ''image''],
      [''metadata'', ''labels'', ''version''], [''version'']] \<and>
   isValidationError (AppErr (NewValidationError ''no suitable tag field found in YAML content'')) \<and>
   UpdateTagSimple p lib content newTag =
     (case ParseContent lib content of
        Inl err \<Rightarrow> Inl (Wrapped ''failed to parse YAML content'' err)
      | Inr pr \<Rightarrow>
          (case find (\<lambda>path. \<exists>loc \<in> set (TagLocations pr). Path loc = path) commonTagPaths of
             None \<Rightarrow>
               Inl (AppErr (NewValidationError ''no suitable tag field found in YAML content''))
           | Some path \<Rightarrow> UpdateTag p lib (Some pr) (Some (tagOptions path newTag))))"
  by (simp add: UpdateTagSimple_def probeTagPaths_find commonTagPaths_def split: sum.splits)

lemma ParseContent_image:
  "ParseContent imageLib (imageText ''v1.0.0'') = Inr (imageResult ''v1.0.0'')"
  by (simp add: ParseContent_def MaxFileSize_def ex_defs kind_defs tag_defs)

lemma ParseContent_name: "ParseContent nameLib nameText = Inr nameResult"
  by (simp add: ParseContent_def MaxFileSize_def ex_defs kind_defs tag_defs)

lemma find_image: "find (\<lambda>path. \<exists>loc \<in> set (TagLocations (imageResult v)). Path loc = path) commonTagPaths = Some [''image'', ''tag'']"
  by (simp add: commonTagPaths_def imageResult_def locationOf_def)

lemma UpdateTag_image:
  "UpdateTag NewParser imageLib (Some (imageResult ''v1.0.0'')) (Some (tagOptions [''image'', ''tag''] ''v2.0.0'')) = Inr (imageText ''v2.0.0'')"
  by (simp add: UpdateTag_def findTagByPath_def pathsEqual_def MaxTagValueLength_def
       assignNodeValue_def encodeContent_def NewParser_def DefaultIndentation_def ex_defs kind_defs)

theorem UpdateTagSimple_probe_order_witness:
  "UpdateTagSimple NewParser imageLib (imageText ''v1.0.0'') ''v2.0.0'' = Inr (imageText ''v2.0.0'') \<and>
   UpdateTagSimple NewParser nameLib nameText ''v2.0.0'' =
     Inl (AppErr (NewValidationError ''no suitable tag field found in YAML content''))"
proof -
  note a = UpdateTagSimple_probe_order [of NewParser imageLib "imageText ''v1.0.0''" "''v2.0.0''",
      THEN conjunct2, THEN conjunct2]
  note b = UpdateTagSimple_probe_order [of NewParser nameLib nameText "''v2.0.0''",
      THEN conjunct2, THEN conjunct2]
  have "UpdateTagSimple NewParser imageLib (imageText ''v1.0.0'') ''v2.0.0'' = Inr (imageText ''v2.0.0'')"
    unfolding a ParseContent_image by (simp add: find_image UpdateTag_image)
  moreover have "UpdateTagSimple NewParser nameLib nameText ''v2.0.0'' =
     Inl (AppErr (NewValidationError ''no suitable tag field found in YAML content''))"
    unfolding b ParseContent_name by (simp add: nameResult_def commonTagPaths_def)
  ultimately show ?thesis by simp
qed

section \<open>Detecting the path\<close>


text \<open>
  On a key with a byte outside ASCII the library decides: when it lower-cases the key
  to \<open>version\<close>, a location of that key is preferred to an earlier one named \<open>release\<close>.
\<close>

lemma autoDetectTagPath_unicode:
  assumes "\<not> isASCII key" "MapToLower lib key = ''version''"
    and "TagLocations pr = [locationOf [''release''] a r, locationOf [key] b q]"
  shows "autoDetectTagPath lib pr = Inr [key]"
  using assms
  by (simp add: autoDetectTagPath_def preferredPaths_def locationOf_def ToLower_def isASCII_def
      toLowerChar_def)






section \<open>Facts about cleaned paths\<close>

lemma splitSep_nonempty [simp]: "splitSep s \<noteq> []"
  by (induction s) (auto split: list.splits)

lemma splitSep_slashfree: "CHR ''/'' \<notin> set q \<Longrightarrow> splitSep q = [q]"
  by (induction q) auto

lemma splitSep_append:
  "CHR ''/'' \<notin> set q \<Longrightarrow> splitSep (p @ q) = butlast (splitSep p) @ [last (splitSep p) @ q]"
proof (induction p)
  case Nil
  then show ?case by (simp add: splitSep_slashfree)
next
  case (Cons c cs)
  then show ?case
    by (cases "splitSep cs") (auto split: list.splits)
qed

lemma cleanElems_snoc:
  "realElem e \<Longrightarrow> cleanElems r (xs @ [e]) out dd = cleanElems r xs out dd @ [e]"
  by (induction xs arbitrary: out dd) (auto simp: realElem_def)

lemma joinSep_snoc: "joinSep (xs @ [e]) = (if xs = [] then e else joinSep xs @ ''/'' @ e)"
  by (induction xs rule: joinSep.induct) auto

lemma realElem_long: "3 \<le> length q \<Longrightarrow> realElem (x @ q)"
  by (auto simp: realElem_def append_eq_Cons_conv)

lemma Clean_append:
  assumes "CHR ''/'' \<notin> set q" "3 \<le> length q"
  shows "Clean (p @ q) = cleanPrefix p @ q"
proof -
  from assms have q: "q \<noteq> []" "hd q \<noteq> CHR ''/''" by (cases q; auto)+
  have rooted: "(hd (p @ q) = CHR ''/'') = (p \<noteq> [] \<and> hd p = CHR ''/'')"
    using q by (cases p) auto
  show ?thesis
    using assms q
    by (simp add: Clean_def cleanPrefix_def rooted splitSep_append cleanElems_snoc
        realElem_long joinSep_snoc Let_def)
qed

lemma cleanElems_nonempty_elems:
  "\<forall>e \<in> set out. e \<noteq> [] \<Longrightarrow> \<forall>e \<in> set (cleanElems r xs out dd). e \<noteq> []"
proof (induction xs arbitrary: out dd)
  case Nil
  then show ?case by simp
next
  case (Cons x xs)
  have b: "\<forall>e \<in> set (butlast out). e \<noteq> []"
    using Cons.prems by (auto dest: in_set_butlastD)
  have c: "\<forall>e \<in> set (out @ [''..'']). e \<noteq> []" using Cons.prems by auto
  have d: "x \<noteq> [] \<Longrightarrow> \<forall>e \<in> set (out @ [x]). e \<noteq> []" using Cons.prems by auto
  show ?case
    using Cons.IH [OF Cons.prems] Cons.IH [OF b] Cons.IH [OF c] Cons.IH [OF d]
    by (simp del: butlast.simps)
qed

lemma joinSep_empty: "\<forall>e \<in> set xs. e \<noteq> [] \<Longrightarrow> joinSep xs = [] \<longleftrightarrow> xs = []"
  by (induction xs rule: joinSep.induct) auto

lemma Clean_nonempty [simp]: "Clean p \<noteq> []"
  using cleanElems_nonempty_elems [of "[]" "hd p = CHR ''/''" "splitSep p" 0]
  by (auto simp: Clean_def Let_def joinSep_empty)

lemma splitSep_snoc_slash: "splitSep (x @ ''/'') = splitSep x @ [[]]"
proof (induction x)
  case Nil
  then show ?case by simp
next
  case (Cons c cs)
  then show ?case by (cases "splitSep cs") auto
qed

lemma last_splitSep_slash: "last (splitSep (x @ ''/'')) = []"
  by (simp add: splitSep_snoc_slash)

lemma cleanPrefix_slash:
  "cleanPrefix (x @ ''/'') = [] \<or> last (cleanPrefix (x @ ''/'')) = CHR ''/''"
  by (auto simp: cleanPrefix_def Let_def last_splitSep_slash simp del: splitSep.simps)

lemma Base_after_slash:
  assumes "CHR ''/'' \<notin> set q" "q \<noteq> []" "pre = [] \<or> last pre = CHR ''/''"
  shows "Base (pre @ q) = q"
proof -
  have l: "last q \<noteq> CHR ''/''" using assms(1,2) by (metis last_in_set)
  have 1: "dropWhile (\<lambda>c. c = CHR ''/'') (rev q @ rev pre) = rev q @ rev pre"
    using assms(2) l by (cases "rev q") (auto simp: hd_rev dropWhile_append)
  have 2: "takeWhile (\<lambda>c. c \<noteq> CHR ''/'') (rev q @ rev pre) = rev q"
  proof (cases "pre = []")
    case True
    then show ?thesis using assms(1) by (auto simp: takeWhile_eq_all_conv)
  next
    case False
    then have "hd (rev pre) = CHR ''/''" using assms(3) by (simp add: hd_rev)
    then obtain t where "rev pre = CHR ''/'' # t" using False by (cases "rev pre") auto
    then show ?thesis using assms(1) by (simp add: takeWhile_append)
  qed
  show ?thesis using assms(2) by (simp add: Base_def Let_def 1 2)
qed

lemma Base_cases: "Base p = ''/'' \<or> (CHR ''/'' \<notin> set (Base p) \<and> Base p \<noteq> [])"
proof -
  have "CHR ''/'' \<notin> set (takeWhile (\<lambda>c. c \<noteq> CHR ''/'') xs)" for xs :: string
    by (induction xs) auto
  then show ?thesis by (auto simp: Base_def Let_def)
qed

lemma tempPathFor_neq: "tempPathFor p \<noteq> p"
proof
  assume eq: "tempPathFor p = p"
  have t: "tempPathFor p = Clean (Dir p @ ''/'' @ Base p @ ''.tmp'')"
    by (simp add: tempPathFor_def Join_def Dir_def TempFileSuffix_def)
  show False
  proof (cases "Base p = ''/''")
    case True
    have "tempPathFor p = Clean ((Dir p @ ''/'' @ ''/'') @ ''.tmp'')" by (simp add: t True)
    also have "\<dots> = cleanPrefix ((Dir p @ ''/'') @ ''/'') @ ''.tmp''"
      by (subst Clean_append) simp_all
    finally have "Base (tempPathFor p) = ''.tmp''"
      using cleanPrefix_slash [of "Dir p @ ''/''"] by (simp add: Base_after_slash)
    with eq True show False by simp
  next
    case False
    with Base_cases [of p] have b: "CHR ''/'' \<notin> set (Base p)" by auto
    have "tempPathFor p = Clean ((Dir p @ ''/'') @ (Base p @ ''.tmp''))" by (simp add: t)
    also have "\<dots> = cleanPrefix (Dir p @ ''/'') @ (Base p @ ''.tmp'')"
      using b by (subst Clean_append) simp_all
    finally have "Base (tempPathFor p) = Base p @ ''.tmp''"
      using cleanPrefix_slash [of "Dir p"] b by (simp add: Base_after_slash)
    with eq show False by simp
  qed
qed

text \<open>The temporary file lies in the directory of the file: \<open>Clean\<close> is idempotent.\<close>

lemma splitSep_slashfree_elems: "\<forall>e \<in> set (splitSep s). CHR ''/'' \<notin> set e"
  by (induction s) (auto split: list.splits)

lemma splitSep_elem_slash:
  "CHR ''/'' \<notin> set e \<Longrightarrow> splitSep (e @ CHR ''/'' # s) = e # splitSep s"
  by (induction e) auto

lemma splitSep_joinSep:
  "xs \<noteq> [] \<Longrightarrow> \<forall>e \<in> set xs. CHR ''/'' \<notin> set e \<Longrightarrow> splitSep (joinSep xs) = xs"
proof (induction xs rule: joinSep.induct)
  case 1
  then show ?case by simp
next
  case (2 e)
  then show ?case by (simp add: splitSep_slashfree)
next
  case (3 e v va)
  then show ?case by (simp add: splitSep_elem_slash)
qed

lemma cleanElems_reals:
  "\<forall>e \<in> set xs. realElem e \<Longrightarrow> cleanElems r xs out dd = out @ xs"
  by (induction xs arbitrary: out dd) (auto simp: realElem_def)

lemma cleanElems_dotdots:
  "\<forall>e \<in> set xs. realElem e \<Longrightarrow>
   cleanElems False (replicate k ''..'' @ xs) (replicate j ''..'') j = replicate (j + k) ''..'' @ xs"
proof (induction k arbitrary: j)
  case 0
  then show ?case by (simp add: cleanElems_reals)
next
  case (Suc k)
  have "replicate j ''..'' @ [''..''] = replicate (Suc j) ''..''"
    by (simp add: replicate_append_same)
  with Suc.IH [OF Suc.prems, of "Suc j"] show ?case by simp
qed

text \<open>The elements written by \<open>cleanElems\<close>: a run of \<open>..\<close>, none if the path is rooted, then real elements.\<close>

lemma cleanElems_form:
  assumes "out = replicate dd ''..'' @ reals" "\<forall>e \<in> set reals. realElem e \<and> CHR ''/'' \<notin> set e"
    and "r \<longrightarrow> dd = 0" "\<forall>e \<in> set xs. CHR ''/'' \<notin> set e"
  shows "\<exists>k reals'. cleanElems r xs out dd = replicate k ''..'' @ reals' \<and>
           (\<forall>e \<in> set reals'. realElem e \<and> CHR ''/'' \<notin> set e) \<and> (r \<longrightarrow> k = 0)"
  using assms
proof (induction xs arbitrary: out dd reals)
  case Nil
  then show ?case by auto
next
  case (Cons x xs)
  have xs: "\<forall>e \<in> set xs. CHR ''/'' \<notin> set e" using Cons.prems(4) by simp
  show ?case
  proof (cases "x = [] \<or> x = ''.''")
    case True
    with Cons.IH [OF Cons.prems(1,2,3) xs] show ?thesis by auto
  next
    case False
    show ?thesis
    proof (cases "x = ''..''")
      case dots: True
      show ?thesis
      proof (cases "reals = []")
        case True
        then have len: "\<not> dd < length out" using Cons.prems(1) by simp
        show ?thesis
        proof (cases r)
          case True
          with len dots Cons.IH [OF Cons.prems(1,2,3) xs] show ?thesis by auto
        next
          case nr: False
          have o: "out @ [''..''] = replicate (length out + 1) ''..'' @ []"
            using Cons.prems(1) True by (simp add: replicate_append_same)
          from Cons.IH [OF o _ _ xs] nr
          obtain k reals' where "cleanElems r xs (out @ [''..'']) (length out + 1) =
              replicate k ''..'' @ reals'"
            "\<forall>e \<in> set reals'. realElem e \<and> CHR ''/'' \<notin> set e" "r \<longrightarrow> k = 0"
            by auto
          with len dots nr show ?thesis by auto
        qed
      next
        case False
        then have len: "dd < length out" using Cons.prems(1) by (cases reals) auto
        have b: "butlast out = replicate dd ''..'' @ butlast reals"
          using Cons.prems(1) False by (simp add: butlast_append)
        have br: "\<forall>e \<in> set (butlast reals). realElem e \<and> CHR ''/'' \<notin> set e"
          using Cons.prems(2) by (auto dest: in_set_butlastD)
        from Cons.IH [OF b br Cons.prems(3) xs] len dots show ?thesis by auto
      qed
    next
      case nd: False
      have re: "realElem x" using False nd by (simp add: realElem_def)
      have o: "out @ [x] = replicate dd ''..'' @ (reals @ [x])" using Cons.prems(1) by simp
      have rr: "\<forall>e \<in> set (reals @ [x]). realElem e \<and> CHR ''/'' \<notin> set e"
        using Cons.prems(2,4) re by auto
      from Cons.IH [OF o rr Cons.prems(3) xs] False nd show ?thesis by auto
    qed
  qed
qed

lemma Clean_form:
  "\<exists>k reals. cleanElems r (splitSep z) [] 0 = replicate k ''..'' @ reals \<and>
     (\<forall>e \<in> set reals. realElem e \<and> CHR ''/'' \<notin> set e) \<and> (r \<longrightarrow> k = 0)"
  by (rule cleanElems_form [where reals = "[]"]) (simp_all add: splitSep_slashfree_elems)


lemma cleanElems_snoc_empty: "cleanElems r (xs @ [[]]) out dd = cleanElems r xs out dd"
  by (induction xs arbitrary: out dd) auto

lemma Clean_trailing_slash: "w \<noteq> [] \<Longrightarrow> Clean (w @ ''/'') = Clean w"
  by (simp add: Clean_def splitSep_snoc_slash cleanElems_snoc_empty Let_def del: splitSep.simps)

lemma hd_joinSep: "xs \<noteq> [] \<Longrightarrow> hd xs \<noteq> [] \<Longrightarrow> hd (joinSep xs) = hd (hd xs)"
  by (induction xs rule: joinSep.induct) auto

lemma Clean_dot: "Clean ''.'' = ''.''"
  by (simp add: Clean_def)

lemma Clean_root: "Clean ''/'' = ''/''"
  by (simp add: Clean_def)

lemma Clean_idem: "Clean (Clean z) = Clean z"
proof (cases "z = []")
  case True
  then show ?thesis by (simp add: Clean_def)
next
  case False
  define r where "r = (hd z = CHR ''/'')"
  define out where "out = cleanElems r (splitSep z) [] 0"
  from Clean_form [of r z] obtain k reals where
    o: "out = replicate k ''..'' @ reals"
    and re: "\<forall>e \<in> set reals. realElem e \<and> CHR ''/'' \<notin> set e" and rk: "r \<longrightarrow> k = 0"
    by (auto simp: out_def)
  have sf: "\<forall>e \<in> set out. CHR ''/'' \<notin> set e" using o re by auto
  have ne: "\<forall>e \<in> set out. e \<noteq> []"
  proof
    fix e assume "e \<in> set out"
    then have "e = ''..'' \<or> e \<in> set reals" using o by auto
    then show "e \<noteq> []" using re unfolding realElem_def by blast
  qed
  have c: "Clean z = (if r then CHR ''/'' # joinSep out else if out = [] then ''.'' else joinSep out)"
    using False by (simp add: Clean_def r_def out_def Let_def)
  show ?thesis
  proof (cases "out = []")
    case True
    then show ?thesis using c by (simp add: Clean_dot Clean_root)
  next
    case nonempty: False
    have sj: "splitSep (joinSep out) = out" using nonempty sf by (rule splitSep_joinSep)
    have j: "joinSep out \<noteq> []" using nonempty ne by (simp add: joinSep_empty)
    show ?thesis
    proof (cases r)
      case True
      then have "out = reals" using o rk by simp
      then have "cleanElems True out [] 0 = out" using re by (simp add: cleanElems_reals)
      then have "Clean (CHR ''/'' # joinSep out) = CHR ''/'' # joinSep out"
        by (simp add: Clean_def sj)
      then show ?thesis using c True by simp
    next
      case nr: False
      have h: "hd (joinSep out) \<noteq> CHR ''/''"
      proof -
        obtain a rest where out: "out = a # rest" using nonempty by (cases out) auto
        then have "a \<noteq> []" "CHR ''/'' \<notin> set a" using sf ne by auto
        then have "hd a \<noteq> CHR ''/''" by (cases a) auto
        then show ?thesis using out \<open>a \<noteq> []\<close> hd_joinSep [of out] by simp
      qed
      have "cleanElems False out [] 0 = out"
        using cleanElems_dotdots [of reals k 0] re o by simp
      then have "Clean (joinSep out) = joinSep out"
        using nonempty j h by (simp add: Clean_def sj)
      then show ?thesis using c nr nonempty by simp
    qed
  qed
qed

lemma Dir_idem: "Clean (Dir p) = Dir p"
  by (simp add: Dir_def Clean_idem)

lemma Clean_cleanPrefix_slash:
  assumes "y \<noteq> []"
  shows "Clean (cleanPrefix (y @ ''/'')) = Clean y"
proof -
  define r where "r = (hd y = CHR ''/'')"
  define out where "out = cleanElems r (splitSep y) [] 0"
  have p: "cleanPrefix (y @ ''/'') =
      (if r then ''/'' else []) @ (if out = [] then [] else joinSep out @ ''/'')"
    using assms
    by (simp add: cleanPrefix_def splitSep_snoc_slash r_def out_def Let_def del: splitSep.simps)
  have c: "Clean y = (if r then CHR ''/'' # joinSep out else if out = [] then ''.'' else joinSep out)"
    using assms by (simp add: Clean_def r_def out_def Let_def)
  show ?thesis
  proof (cases "out = []")
    case True
    then show ?thesis using p c by (simp add: Clean_root) (simp add: Clean_def)
  next
    case False
    then have "cleanPrefix (y @ ''/'') = Clean y @ ''/''" using p c by simp
    then show ?thesis by (simp add: Clean_trailing_slash Clean_idem)
  qed
qed

lemma upTo_after_slash:
  assumes "CHR ''/'' \<notin> set q" "pre = [] \<or> last pre = CHR ''/''"
  shows "rev (dropWhile (\<lambda>c. c \<noteq> CHR ''/'') (rev (pre @ q))) = pre"
proof (cases "pre = []")
  case True
  then show ?thesis using assms(1) by (auto simp: dropWhile_eq_Nil_conv)
next
  case False
  then have "hd (rev pre) = CHR ''/''" using assms(2) by (simp add: hd_rev)
  then obtain t where "rev pre = CHR ''/'' # t" using False by (cases "rev pre") auto
  then show ?thesis using assms(1) by (simp add: dropWhile_append rev_swap [symmetric])
qed

lemma Dir_after_slash:
  "CHR ''/'' \<notin> set q \<Longrightarrow> pre = [] \<or> last pre = CHR ''/'' \<Longrightarrow> Dir (pre @ q) = Clean pre"
  using upTo_after_slash [of q pre] by (simp add: Dir_def)

lemma Dir_tempPathFor: "Dir (tempPathFor p) = Dir p"
proof -
  have t: "tempPathFor p = Clean (Dir p @ ''/'' @ Base p @ ''.tmp'')"
    by (simp add: tempPathFor_def Join_def Dir_def TempFileSuffix_def)
  show ?thesis
  proof (cases "Base p = ''/''")
    case True
    have "tempPathFor p = Clean ((Dir p @ ''/'' @ ''/'') @ ''.tmp'')" by (simp add: t True)
    also have "\<dots> = cleanPrefix ((Dir p @ ''/'') @ ''/'') @ ''.tmp''"
      by (subst Clean_append) simp_all
    finally have "Dir (tempPathFor p) = Dir (cleanPrefix ((Dir p @ ''/'') @ ''/'') @ ''.tmp'')"
      by simp
    also have "\<dots> = Clean (cleanPrefix ((Dir p @ ''/'') @ ''/''))"
      using cleanPrefix_slash [of "Dir p @ ''/''"] by (intro Dir_after_slash) simp_all
    also have "\<dots> = Clean (Dir p @ ''/'')" by (rule Clean_cleanPrefix_slash) simp
    also have "\<dots> = Clean (Dir p)" by (rule Clean_trailing_slash) (simp add: Dir_def)
    also have "\<dots> = Dir p" by (rule Dir_idem)
    finally show ?thesis .
  next
    case False
    with Base_cases [of p] have b: "CHR ''/'' \<notin> set (Base p)" by auto
    have "tempPathFor p = Clean ((Dir p @ ''/'') @ (Base p @ ''.tmp''))" by (simp add: t)
    also have "\<dots> = cleanPrefix (Dir p @ ''/'') @ (Base p @ ''.tmp'')"
      using b by (subst Clean_append) simp_all
    finally have "Dir (tempPathFor p) = Dir (cleanPrefix (Dir p @ ''/'') @ (Base p @ ''.tmp''))"
      by simp
    also have "\<dots> = Clean (cleanPrefix (Dir p @ ''/''))"
      using cleanPrefix_slash [of "Dir p"] b by (intro Dir_after_slash) simp_all
    also have "\<dots> = Clean (Dir p)" by (rule Clean_cleanPrefix_slash) (simp add: Dir_def)
    also have "\<dots> = Dir p" by (rule Dir_idem)
    finally show ?thesis .
  qed
qed

section \<open>Writing files\<close>

lemma writeFileAtomic_tempPathFor:
  "writeFileAtomic filePath content s =
     (case os_WriteFile (tempPathFor filePath) content s of
        (Some err, s1) \<Rightarrow>
          (Some (AppErr (NewFileSystemError (''failed to write temporary file: '' @ err))), s1)
      | (None, s1) \<Rightarrow>
          (case os_Rename (tempPathFor filePath) filePath s1 of
             (Some err, s2) \<Rightarrow>
               (Some (AppErr (NewFileSystemError (''failed to rename temporary file: '' @ err))),
                snd (os_Remove (tempPathFor filePath) s2))
           | (None, s2) \<Rightarrow> (None, s2)))"
  by (simp add: writeFileAtomic_def tempPathFor_def Let_def split: prod.splits option.splits)

lemma writeFileAtomic_ok:
  assumes "faults s (length (calls s)) = None" "faults s (length (calls s) + 1) = None"
  shows "writeFileAtomic path text s =
     (None, s\<lparr>calls := calls s @ [SysWriteFile (tempPathFor path) text,
                                   SysRename (tempPathFor path) path],
               files := ((files s)(path \<mapsto> text))(tempPathFor path := None)\<rparr>)"
  using assms tempPathFor_neq [of path]
  by (auto simp: writeFileAtomic_tempPathFor os_defs fun_upd_twist)

lemma writeFileAtomic_rename_fails:
  assumes "faults s (length (calls s)) = None" "faults s (length (calls s) + 1) = Some err"
  shows "\<exists>s'. writeFileAtomic path text s =
       (Some (AppErr (NewFileSystemError (''failed to rename temporary file: '' @ err))), s') \<and>
     calls s' = calls s @ [SysWriteFile (tempPathFor path) text,
                           SysRename (tempPathFor path) path, SysRemove (tempPathFor path)] \<and>
     files s' path = files s path \<and>
     files s' (tempPathFor path) =
       (if faults s (length (calls s) + 2) = None then None else Some text)"
  using assms tempPathFor_neq [of path]
  by (auto simp: writeFileAtomic_tempPathFor os_defs)

lemma tempPathFor_app: "tempPathFor ''app.yaml'' = ''app.yaml.tmp''"
  by (simp add: tempPathFor_def path_defs TempFileSuffix_def)

text \<open>
  Claim C7, as stated, fails when the removal of the temporary file fails too: the
  code ignores the error of \<open>os.Remove\<close>, and the temporary file stays.
\<close>

theorem writeFileAtomic_temp_remains_counterexample:
  "(case writeFileAtomic ''app.yaml'' ''new'' renameAndRemoveFail of
      (r, s') \<Rightarrow>
        r = Some (AppErr (NewFileSystemError
              ''failed to rename temporary file: permission denied'')) \<and>
        calls s' = [SysWriteFile ''app.yaml.tmp'' ''new'', SysRename ''app.yaml.tmp'' ''app.yaml'',
                    SysRemove ''app.yaml.tmp''] \<and>
        files s' ''app.yaml'' = Some ''old'' \<and>
        files s' ''app.yaml.tmp'' = Some ''new'')"
  by (simp add: writeFileAtomic_tempPathFor tempPathFor_app os_defs renameAndRemoveFail_def)

text \<open>
  Claim C7, amended. The temporary file is \<open>Join(Dir(path), Base(path) + ".tmp")\<close>, a
  file of the same directory and never the file itself. When the write of the temporary file and the rename succeed, these
  are the only two calls, the file holds the text and the temporary file is gone. When
  the write succeeds and the rename fails, \<open>writeFileAtomic\<close> calls \<open>os.Remove\<close> on the
  temporary file once, returns a file system error and leaves the file as it was; the
  temporary file is gone if that removal succeeds.
\<close>

theorem writeFileAtomic_steps:
  "tempPathFor filePath = Join [Dir filePath, Base filePath @ ''.tmp''] \<and>
   Dir (tempPathFor filePath) = Dir filePath \<and>
   tempPathFor filePath \<noteq> filePath \<and>
   (faults s (length (calls s)) = None \<and> faults s (length (calls s) + 1) = None \<longrightarrow>
      writeFileAtomic filePath content s =
        (None, s\<lparr>calls := calls s @ [SysWriteFile (tempPathFor filePath) content,
                                      SysRename (tempPathFor filePath) filePath],
                  files := ((files s)(filePath \<mapsto> content))(tempPathFor filePath := None)\<rparr>)) \<and>
   (faults s (length (calls s)) = None \<and> faults s (length (calls s) + 1) = Some err \<longrightarrow>
      (\<exists>s'. writeFileAtomic filePath content s =
          (Some (AppErr (NewFileSystemError (''failed to rename temporary file: '' @ err))), s') \<and>
        isFileSystemError
          (AppErr (NewFileSystemError (''failed to rename temporary file: '' @ err))) \<and>
        calls s' = calls s @ [SysWriteFile (tempPathFor filePath) content,
                              SysRename (tempPathFor filePath) filePath,
                              SysRemove (tempPathFor filePath)] \<and>
        files s' filePath = files s filePath \<and>
        (faults s (length (calls s) + 2) = None \<longrightarrow> files s' (tempPathFor filePath) = None)))"
  using writeFileAtomic_ok [of s filePath content] writeFileAtomic_rename_fails [of s err filePath content]
    tempPathFor_neq [of filePath] Dir_tempPathFor [of filePath]
  by (auto simp: tempPathFor_def TempFileSuffix_def)

theorem writeFileAtomic_steps_witness:
  "writeFileAtomic ''app.yaml'' ''new'' (oneFile ''app.yaml'' ''old'') =
     (None, (oneFile ''app.yaml'' ''old'')
        \<lparr>calls := [SysWriteFile ''app.yaml.tmp'' ''new'', SysRename ''app.yaml.tmp'' ''app.yaml''],
         files := [''app.yaml'' \<mapsto> ''new'']\<rparr>) \<and>
   (\<exists>s'. writeFileAtomic ''app.yaml'' ''new'' renameFails =
      (Some (AppErr (NewFileSystemError
         ''failed to rename temporary file: permission denied'')), s') \<and>
      files s' ''app.yaml'' = Some ''old'' \<and> files s' ''app.yaml.tmp'' = None)"
proof -
  have a: "faults (oneFile ''app.yaml'' ''old'') (length (calls (oneFile ''app.yaml'' ''old''))) = None"
    "faults (oneFile ''app.yaml'' ''old'') (length (calls (oneFile ''app.yaml'' ''old'')) + 1) = None"
    by (simp_all add: oneFile_def)
  have b: "faults renameFails (length (calls renameFails)) = None"
    "faults renameFails (length (calls renameFails) + 1) = Some ''permission denied''"
    "faults renameFails (length (calls renameFails) + 2) = None"
    by (simp_all add: renameFails_def)
  have f: "(([''app.yaml'' \<mapsto> ''old''])(''app.yaml'' \<mapsto> ''new''))(''app.yaml.tmp'' := None) =
      [''app.yaml'' \<mapsto> ''new'']"
    by (rule ext) simp
  from writeFileAtomic_steps [of "''app.yaml''" "oneFile ''app.yaml'' ''old''" "''new''" "[]"] a
  have 1: "writeFileAtomic ''app.yaml'' ''new'' (oneFile ''app.yaml'' ''old'') =
     (None, (oneFile ''app.yaml'' ''old'')
        \<lparr>calls := [SysWriteFile ''app.yaml.tmp'' ''new'', SysRename ''app.yaml.tmp'' ''app.yaml''],
         files := [''app.yaml'' \<mapsto> ''new'']\<rparr>)"
    by (simp add: tempPathFor_app oneFile_def f)
  from writeFileAtomic_steps [of "''app.yaml''" renameFails "''new''" "''permission denied''"] b
  have 2: "\<exists>s'. writeFileAtomic ''app.yaml'' ''new'' renameFails =
      (Some (AppErr (NewFileSystemError
         ''failed to rename temporary file: permission denied'')), s') \<and>
      files s' ''app.yaml'' = Some ''old'' \<and> files s' ''app.yaml.tmp'' = None"
    by (auto simp: tempPathFor_app renameFails_def)
  from 1 2 show ?thesis by simp
qed

section \<open>Rolling back\<close>

lemma onlyReads_refl [simp]: "onlyReads s s"
  by (simp add: onlyReads_def)

lemma onlyReads_trans: "onlyReads s s1 \<Longrightarrow> onlyReads s1 s2 \<Longrightarrow> onlyReads s s2"
  by (auto simp: onlyReads_def)

lemma os_Stat_onlyReads: "os_Stat p s = (r, s') \<Longrightarrow> onlyReads s s'"
  by (auto simp: os_Stat_def issue_def onlyReads_def isWrite_def split: option.splits)

lemma os_ReadFile_onlyReads: "os_ReadFile p s = (r, s') \<Longrightarrow> onlyReads s s'"
  by (auto simp: os_ReadFile_def issue_def onlyReads_def isWrite_def split: option.splits)

lemma fileExists_onlyReads: "fileExists lib p s = (b, s') \<Longrightarrow> onlyReads s s'"
  by (auto simp: fileExists_def split: sum.splits prod.splits dest: os_Stat_onlyReads)

lemma readFile_onlyReads: "readFile lib p s = (r, s') \<Longrightarrow> onlyReads s s'"
  by (auto simp: readFile_def split: sum.splits prod.splits bool.splits
      dest!: fileExists_onlyReads os_ReadFile_onlyReads intro: onlyReads_trans)

lemma fileExists_missing:
  assumes "\<forall>p. validateAndCleanFilePath lib path = Inr p \<longrightarrow> files s p = None"
  shows "\<exists>s'. fileExists lib path s = (False, s')"
  using assms
  by (auto simp: fileExists_def os_Stat_def issue_def split: sum.splits option.splits)

text \<open>
  Claim C8, as stated, fails when a path is empty: with no file at the backup path,
  \<open>RollbackFromBackup\<close> on an empty file path, or on an empty backup path, returns a
  validation error, not a file-not-found error. The two checks for an empty path come
  before the backup is looked for.
\<close>

theorem RollbackFromBackup_empty_path_counterexample:
  "\<forall>lib.
     files brokenBackup ''gone.backup'' = None \<and> files brokenBackup [] = None \<and>
     RollbackFromBackup NewUpdater lib [] ''gone.backup'' brokenBackup =
       (Some (AppErr (NewValidationError ''file path cannot be empty'')), brokenBackup) \<and>
     \<not> isFileNotFoundError (AppErr (NewValidationError ''file path cannot be empty'')) \<and>
     RollbackFromBackup NewUpdater lib ''app.yaml'' [] brokenBackup =
       (Some (AppErr (NewValidationError ''backup path cannot be empty'')), brokenBackup) \<and>
     \<not> isFileNotFoundError (AppErr (NewValidationError ''backup path cannot be empty''))"
  by (simp add: RollbackFromBackup_def brokenBackup_def)

text \<open>
  Claim C8, amended. \<open>RollbackFromBackup\<close> fails with a validation error, and calls
  nothing, when the file path is empty, and when the file path is not and the backup
  path is. For non-empty paths: when no file is at the backup path, it fails with a
  file-not-found error; when the backup is there and read, and \<open>ValidateYAML\<close> rejects
  its content, it fails with that error wrapped. In both cases it has made no call that
  writes, and every file is as it was.
\<close>

theorem RollbackFromBackup_failures:
  "(filePath = [] \<longrightarrow>
      RollbackFromBackup u lib filePath backupPath s =
        (Some (AppErr (NewValidationError ''file path cannot be empty'')), s)) \<and>
   (filePath \<noteq> [] \<and> backupPath = [] \<longrightarrow>
      RollbackFromBackup u lib filePath backupPath s =
        (Some (AppErr (NewValidationError ''backup path cannot be empty'')), s)) \<and>
   isValidationError (AppErr (NewValidationError message)) \<and>
   (filePath \<noteq> [] \<and> backupPath \<noteq> [] \<longrightarrow>
     ((\<forall>p. validateAndCleanFilePath lib backupPath = Inr p \<longrightarrow> files s p = None) \<longrightarrow>
        (\<exists>s'. RollbackFromBackup u lib filePath backupPath s =
                (Some (AppErr (NewFileNotFoundError backupPath)), s') \<and>
              isFileNotFoundError (AppErr (NewFileNotFoundError backupPath)) \<and>
              onlyReads s s')) \<and>
     (fileExists lib backupPath s = (True, s1) \<and>
      readFile lib backupPath s1 = (Inr backupContent, s2) \<and>
      ValidateYAML lib backupContent = Some err \<longrightarrow>
        RollbackFromBackup u lib filePath backupPath s =
          (Some (Wrapped ''backup file contains invalid YAML'' err), s2) \<and>
        onlyReads s s2))"
proof (intro impI conjI)
  assume "filePath = []"
  then show "RollbackFromBackup u lib filePath backupPath s =
        (Some (AppErr (NewValidationError ''file path cannot be empty'')), s)"
    by (simp add: RollbackFromBackup_def)
next
  assume "filePath \<noteq> [] \<and> backupPath = []"
  then show "RollbackFromBackup u lib filePath backupPath s =
        (Some (AppErr (NewValidationError ''backup path cannot be empty'')), s)"
    by (simp add: RollbackFromBackup_def)
next
  show "isValidationError (AppErr (NewValidationError message))" by simp
next
  assume ne: "filePath \<noteq> [] \<and> backupPath \<noteq> []"
  assume "\<forall>p. validateAndCleanFilePath lib backupPath = Inr p \<longrightarrow> files s p = None"
  then obtain s' where e: "fileExists lib backupPath s = (False, s')"
    using fileExists_missing by blast
  then have "onlyReads s s'" by (rule fileExists_onlyReads)
  with ne e show "\<exists>s'. RollbackFromBackup u lib filePath backupPath s =
                (Some (AppErr (NewFileNotFoundError backupPath)), s') \<and>
              isFileNotFoundError (AppErr (NewFileNotFoundError backupPath)) \<and>
              onlyReads s s'"
    by (simp add: RollbackFromBackup_def)
next
  assume ne: "filePath \<noteq> [] \<and> backupPath \<noteq> []"
  assume h: "fileExists lib backupPath s = (True, s1) \<and>
      readFile lib backupPath s1 = (Inr backupContent, s2) \<and>
      ValidateYAML lib backupContent = Some err"
  with ne show "RollbackFromBackup u lib filePath backupPath s =
          (Some (Wrapped ''backup file contains invalid YAML'' err), s2)"
    by (simp add: RollbackFromBackup_def)
  from h show "onlyReads s s2"
    by (blast intro: onlyReads_trans fileExists_onlyReads readFile_onlyReads)
qed

lemma validate_backup_name:
  "validateAndCleanFilePath lib ''app.yaml.backup'' = Inr ''app.yaml.backup''"
  "validateAndCleanFilePath lib ''gone.backup'' = Inr ''gone.backup''"
  by (simp_all add: path_defs)

theorem RollbackFromBackup_failures_witness:
  "RollbackFromBackup NewUpdater rejectingLib [] ''gone.backup'' brokenBackup =
     (Some (AppErr (NewValidationError ''file path cannot be empty'')), brokenBackup) \<and>
   RollbackFromBackup NewUpdater rejectingLib ''app.yaml'' [] brokenBackup =
     (Some (AppErr (NewValidationError ''backup path cannot be empty'')), brokenBackup) \<and>
   RollbackFromBackup NewUpdater rejectingLib ''app.yaml'' ''gone.backup'' brokenBackup =
     (Some (AppErr (NewFileNotFoundError ''gone.backup'')),
      brokenBackup\<lparr>calls := [SysStat ''gone.backup'']\<rparr>) \<and>
   RollbackFromBackup NewUpdater rejectingLib ''app.yaml'' ''app.yaml.backup'' brokenBackup =
     (Some (Wrapped ''backup file contains invalid YAML''
        (AppErr (NewInvalidYAMLError ''invalid YAML syntax: yaml: document outside the table''))),
      brokenBackup\<lparr>calls := [SysStat ''app.yaml.backup'', SysStat ''app.yaml.backup'',
                              SysReadFile ''app.yaml.backup'']\<rparr>)"
proof -
  let ?s1 = "brokenBackup\<lparr>calls := [SysStat ''app.yaml.backup'']\<rparr>"
  let ?s2 = "brokenBackup\<lparr>calls := [SysStat ''app.yaml.backup'', SysStat ''app.yaml.backup'',
                              SysReadFile ''app.yaml.backup'']\<rparr>"
  have m: "\<forall>p. validateAndCleanFilePath rejectingLib ''gone.backup'' = Inr p \<longrightarrow>
      files brokenBackup p = None"
    by (simp add: validate_backup_name brokenBackup_def)
  have e0: "fileExists rejectingLib ''gone.backup'' brokenBackup =
      (False, brokenBackup\<lparr>calls := [SysStat ''gone.backup'']\<rparr>)"
    by (simp add: fileExists_def validate_backup_name os_defs brokenBackup_def noSuchFile_def)
  have e: "fileExists rejectingLib ''app.yaml.backup'' brokenBackup = (True, ?s1)"
    by (simp add: fileExists_def validate_backup_name os_defs brokenBackup_def)
  have r: "readFile rejectingLib ''app.yaml.backup'' ?s1 = (Inr ''tag: [v1'', ?s2)"
    by (simp add: readFile_def fileExists_def validate_backup_name os_defs brokenBackup_def)
  have v: "ValidateYAML rejectingLib ''tag: [v1'' =
      Some (AppErr (NewInvalidYAMLError ''invalid YAML syntax: yaml: document outside the table''))"
    by (simp add: ValidateYAML_def rejectingLib_def tableLib_def)
  note t = RollbackFromBackup_failures [where u = NewUpdater and lib = rejectingLib
      and s = brokenBackup and message = "[]"]
  from t [where filePath = "[]" and backupPath = "''gone.backup''" and ?s1.0 = ?s1
      and backupContent = "[]" and ?s2.0 = ?s1 and err = "OSError []"]
  have x: "RollbackFromBackup NewUpdater rejectingLib [] ''gone.backup'' brokenBackup =
     (Some (AppErr (NewValidationError ''file path cannot be empty'')), brokenBackup)"
    by simp
  from t [where filePath = "''app.yaml''" and backupPath = "[]" and ?s1.0 = ?s1
      and backupContent = "[]" and ?s2.0 = ?s1 and err = "OSError []"]
  have y: "RollbackFromBackup NewUpdater rejectingLib ''app.yaml'' [] brokenBackup =
     (Some (AppErr (NewValidationError ''backup path cannot be empty'')), brokenBackup)"
    by simp
  from t [where filePath = "''app.yaml''" and backupPath = "''gone.backup''" and ?s1.0 = ?s1
      and backupContent = "[]" and ?s2.0 = ?s1 and err = "OSError []"] m
  obtain s' where 1: "RollbackFromBackup NewUpdater rejectingLib ''app.yaml'' ''gone.backup'' brokenBackup =
     (Some (AppErr (NewFileNotFoundError ''gone.backup'')), s')"
    by auto
  then have "s' = brokenBackup\<lparr>calls := [SysStat ''gone.backup'']\<rparr>"
    by (simp add: RollbackFromBackup_def e0)
  with 1 have a: "RollbackFromBackup NewUpdater rejectingLib ''app.yaml'' ''gone.backup'' brokenBackup =
     (Some (AppErr (NewFileNotFoundError ''gone.backup'')),
      brokenBackup\<lparr>calls := [SysStat ''gone.backup'']\<rparr>)" by simp
  from t [where filePath = "''app.yaml''" and backupPath = "''app.yaml.backup''" and ?s1.0 = ?s1
      and backupContent = "''tag: [v1''" and ?s2.0 = ?s2] e r v
  have b: "RollbackFromBackup NewUpdater rejectingLib ''app.yaml'' ''app.yaml.backup'' brokenBackup =
     (Some (Wrapped ''backup file contains invalid YAML''
        (AppErr (NewInvalidYAMLError ''invalid YAML syntax: yaml: document outside the table''))), ?s2)"
    by simp
  from x y a b show ?thesis by simp
qed

section \<open>Backups\<close>























section \<open>Updating a value and reading the text again\<close>











lemma sameShape_kids: "sameShape a b \<Longrightarrow> sameShapeList (Content a) (Content b)"
  by (cases a; cases b) simp






lemma withValue_Path [simp]: "Path (withValue r V l) = Path l"
  by (simp add: withValue_def)













section \<open>Round trip\<close>

















section \<open>Applying an update twice\<close>






















end
